theory Spec2Isabelle
  imports Main
begin

section \<open>Request values\<close>

text \<open>
  A field of a parsed request body, a header or a cookie is either absent
  (JavaScript \<open>undefined\<close>) or a string. The controllers test such values
  with \<open>!v\<close>: absent and the empty string are falsy, every other string is truthy.
\<close>

definition truthy :: "string option \<Rightarrow> bool" where
  "truthy v = (case v of None \<Rightarrow> False | Some s \<Rightarrow> s \<noteq> [])"

text \<open>
  The body itself is untyped JSON, so a field can hold a value that is no string. The
  schema casts or rejects such a value before it is stored; the one place where it
  reaches a library as it came is the password of a login, which goes to
  \<open>bcrypt.compare\<close>. For that field the other JSON values are modelled too:
  \<open>null\<close>, booleans, numbers, and arrays or objects (\<open>JObject\<close>, contents left
  out). Of these \<open>null\<close>, \<open>false\<close> and \<open>0\<close> are falsy.
\<close>

datatype jsvalue = JNull | JBool bool | JNumber int | JString string | JObject

definition js_truthy :: "jsvalue option \<Rightarrow> bool" where
  "js_truthy v =
     (case v of
        None \<Rightarrow> False
      | Some JNull \<Rightarrow> False
      | Some (JBool b) \<Rightarrow> b
      | Some (JNumber n) \<Rightarrow> n \<noteq> 0
      | Some (JString s) \<Rightarrow> s \<noteq> []
      | Some JObject \<Rightarrow> True)"

record body =
  body_name :: "string option"
  body_email :: "string option"
  body_password :: "string option"
  body_role :: "string option"
  body_tenantId :: "string option"
  body_currentPassword :: "string option"
  body_newPassword :: "string option"

record request =
  authorization :: "string option"
  cookies_token :: "string option"
  req_body :: body

section \<open>The email pattern of the user schema\<close>

text \<open>
  The schema validates \<open>email\<close> against
  \<^verbatim>\<open>/^\w+([\.-]?\w+)*@\w+([\.-]?\w+)*(\.\w{2,3})+$/\<close>.
  The pattern is a plain regular expression anchored at both ends, so a string passes
  exactly when it is in the language of the expression; membership is decided with
  derivatives, kept small by dropping empty and repeated alternatives.
\<close>

definition word_char :: "char \<Rightarrow> bool" where
  "word_char c =
     (c \<in> set ''abcdefghijklmnopqrstuvwxyzABCDEFGHIJKLMNOPQRSTUVWXYZ0123456789_'')"

datatype char_class = Word | DotOrDash | Literal char

fun in_class :: "char_class \<Rightarrow> char \<Rightarrow> bool" where
  "in_class Word c = word_char c"
| "in_class DotOrDash c = (c = CHR ''.'' \<or> c = CHR ''-'')"
| "in_class (Literal x) c = (c = x)"

datatype rexp =
  Zero
  | One
  | Atom char_class
  | Alt rexp rexp
  | Seq rexp rexp
  | Star rexp

fun nullable :: "rexp \<Rightarrow> bool" where
  "nullable Zero = False"
| "nullable One = True"
| "nullable (Atom a) = False"
| "nullable (Alt r s) = (nullable r \<or> nullable s)"
| "nullable (Seq r s) = (nullable r \<and> nullable s)"
| "nullable (Star r) = True"

definition alt :: "rexp \<Rightarrow> rexp \<Rightarrow> rexp" where
  "alt r s = (if r = Zero then s else if s = Zero then r else if r = s then r else Alt r s)"

definition seq :: "rexp \<Rightarrow> rexp \<Rightarrow> rexp" where
  "seq r s = (if r = Zero \<or> s = Zero then Zero else if r = One then s else Seq r s)"

fun deriv :: "char \<Rightarrow> rexp \<Rightarrow> rexp" where
  "deriv c Zero = Zero"
| "deriv c One = Zero"
| "deriv c (Atom a) = (if in_class a c then One else Zero)"
| "deriv c (Alt r s) = alt (deriv c r) (deriv c s)"
| "deriv c (Seq r s) =
     (if nullable r then alt (seq (deriv c r) s) (deriv c s) else seq (deriv c r) s)"
| "deriv c (Star r) = seq (deriv c r) (Star r)"

fun regex_test :: "rexp \<Rightarrow> string \<Rightarrow> bool" where
  "regex_test r [] = nullable r"
| "regex_test r (c # cs) = regex_test (deriv c r) cs"

definition Plus :: "rexp \<Rightarrow> rexp" where
  "Plus r = Seq r (Star r)"

definition Opt :: "rexp \<Rightarrow> rexp" where
  "Opt r = Alt One r"

definition email_pattern :: rexp where
  "email_pattern =
     (let w = Atom Word;
          part = Seq (Plus w) (Star (Seq (Opt (Atom DotOrDash)) (Plus w)));
          tld = Seq (Atom (Literal CHR ''.'')) (Seq w (Seq w (Opt w)))
      in Seq part (Seq (Atom (Literal CHR ''@'')) (Seq part (Plus tld))))"

section \<open>The user schema and mongoose documents\<close>

text \<open>
  A stored user is a document of the collection; any field may be missing in the
  database, so every schema path holds an optional string. \<open>user_id\<close> is the
  \<open>_id\<close> of the document.
\<close>

record user =
  user_id :: nat
  name :: "string option"
  email :: "string option"
  role :: "string option"
  password :: "string option"
  tenantId :: "string option"
  createdAt :: int

datatype path = P_name | P_email | P_role | P_password | P_tenantId

text \<open>
  An in-memory document is the user's fields together with mongoose's bookkeeping: whether
  the document is new, and which paths were modified since it was loaded. A document
  loaded without \<open>select('+password')\<close> has no password (\<open>select: false\<close>).
\<close>

record document = user +
  isNew :: bool
  modifiedPaths :: "path list"

type_synonym store = "user list"

fun getValue :: "path \<Rightarrow> ('a user_scheme) \<Rightarrow> string option" where
  "getValue P_name d = name d"
| "getValue P_email d = email d"
| "getValue P_role d = role d"
| "getValue P_password d = password d"
| "getValue P_tenantId d = tenantId d"

fun setValue :: "path \<Rightarrow> string option \<Rightarrow> ('a user_scheme) \<Rightarrow> ('a user_scheme)" where
  "setValue P_name v d = d\<lparr>name := v\<rparr>"
| "setValue P_email v d = d\<lparr>email := v\<rparr>"
| "setValue P_role v d = d\<lparr>role := v\<rparr>"
| "setValue P_password v d = d\<lparr>password := v\<rparr>"
| "setValue P_tenantId v d = d\<lparr>tenantId := v\<rparr>"

definition isModified :: "document \<Rightarrow> path \<Rightarrow> bool" where
  "isModified d p = (p \<in> set (modifiedPaths d))"

text \<open>
  Assigning to a path of a document (\<open>user.password = v\<close>) marks the path modified
  only when the document is new, the path is modified already, or the value differs from
  the one the document holds: the diff against the in-memory value.
\<close>

definition doc_set :: "path \<Rightarrow> string option \<Rightarrow> document \<Rightarrow> document" where
  "doc_set p v d =
     (if isNew d \<or> isModified d p \<or> v \<noteq> getValue p d
      then (setValue p v d)\<lparr>modifiedPaths := p # modifiedPaths d\<rparr>
      else d)"

definition hydrate :: "bool \<Rightarrow> user \<Rightarrow> document" where
  "hydrate selectPassword u =
     \<lparr>user_id = user_id u, name = name u, email = email u, role = role u,
      password = (if selectPassword then password u else None),
      tenantId = tenantId u, createdAt = createdAt u,
      isNew = False, modifiedPaths = []\<rparr>"

definition toObject :: "document \<Rightarrow> user" where
  "toObject d =
     \<lparr>user_id = user_id d, name = name d, email = email d, role = role d,
      password = password d, tenantId = tenantId d, createdAt = createdAt d\<rparr>"

section \<open>Collaborators, configuration and ambient values\<close>

record claims =
  claims_id :: nat
  claims_name :: "string option"
  claims_role :: "string option"
  claims_tenantId :: "string option"

text \<open>
  The hashing and token libraries are collaborators of the code: \<open>bcrypt.hash\<close>
  takes the plaintext and a salt, \<open>bcrypt.compare\<close> the entered password and the
  stored digest; \<open>jwt.sign\<close> takes the payload, the secret and \<open>expiresIn\<close>,
  \<open>jwt.verify\<close> the token and the secret, and fails (\<open>None\<close>) on a bad
  signature, an expired or a malformed token.

  The database is a collaborator as well. The access guard is the one place where the
  code itself catches a failing query: \<open>findById_throws\<close> says for which ids the
  lookup \<open>User.findById\<close> of the guard throws instead of answering (the database
  cannot be reached, the query times out).
\<close>

record collaborators =
  bcrypt_hash :: "string \<Rightarrow> string \<Rightarrow> string"
  bcrypt_compare :: "string \<Rightarrow> string \<Rightarrow> bool"
  jwt_sign :: "claims \<Rightarrow> string \<Rightarrow> string \<Rightarrow> string"
  jwt_verify :: "string \<Rightarrow> string \<Rightarrow> claims option"
  findById_throws :: "nat \<Rightarrow> bool"

record config =
  JWT_SECRET :: string
  JWT_EXPIRE :: string
  COOKIE_EXPIRE :: int
  NODE_ENV :: string

text \<open>
  What one request draws from its environment: \<open>Date.now()\<close> in milliseconds, the
  salt of \<open>bcrypt.genSalt(10)\<close>, and the identifier generated for a new document.
\<close>

record ambient =
  now :: int
  salt :: string
  objectId :: nat

datatype event =
  FindOne string
  | FindById nat
  | FindByIdAndUpdate nat
  | InsertOne nat
  | UpdateOne nat
  | GenSalt
  | Hash string
  | Compare string

text \<open>
  Modelled from the spec: the class \<open>ErrorResponse\<close> of \<open>utils/errorResponse\<close>
  is not among the sources; by the specification an error response carries a message
  string and a status code. The other errors are the ones the libraries throw: a
  validation error with the failing paths, a duplicate key, a missing document, a
  property read on \<open>null\<close>, and arguments of \<open>bcrypt\<close> that are not strings.
  \<open>asyncHandler\<close> hands each of them to \<open>next\<close>.
\<close>

datatype error =
  ErrorResponse string nat
  | ValidationError "path list"
  | DuplicateKey
  | DocumentNotFound
  | TypeError
  | IllegalArguments

section \<open>The model: validation, the pre-save hook and save\<close>

definition role_enum :: "string list" where
  "role_enum = [''super-admin'', ''admin'', ''school_admin'', ''teacher'', ''student'', ''parent'']"

definition valid_name :: "string option \<Rightarrow> bool" where
  "valid_name v = truthy v"

definition valid_email :: "string option \<Rightarrow> bool" where
  "valid_email v = (case v of None \<Rightarrow> False | Some s \<Rightarrow> s \<noteq> [] \<and> regex_test email_pattern s)"

definition valid_role :: "string option \<Rightarrow> bool" where
  "valid_role v = (case v of None \<Rightarrow> True | Some r \<Rightarrow> r \<in> set role_enum)"

definition valid_password :: "string option \<Rightarrow> bool" where
  "valid_password v = (case v of None \<Rightarrow> False | Some s \<Rightarrow> s \<noteq> [] \<and> 6 \<le> length s)"

definition valid_tenantId :: "string option \<Rightarrow> bool" where
  "valid_tenantId v = truthy v"

text \<open>
  Validation before save checks every path the document holds; the password is skipped
  only on a loaded document that did not select it and did not assign it.
\<close>

definition validate :: "document \<Rightarrow> path list" where
  "validate d =
     (if valid_name (name d) then [] else [P_name]) @
     (if valid_email (email d) then [] else [P_email]) @
     (if valid_role (role d) then [] else [P_role]) @
     (if (isNew d \<or> isModified d P_password \<or> password d \<noteq> None)
          \<and> \<not> valid_password (password d) then [P_password] else []) @
     (if valid_tenantId (tenantId d) then [] else [P_tenantId])"

text \<open>\<open>UserSchema.pre('save')\<close>: hash the password, only if it was modified.\<close>

definition pre_save ::
  "collaborators \<Rightarrow> ambient \<Rightarrow> document \<Rightarrow> (error + document) \<times> event list" where
  "pre_save c amb d =
     (if \<not> isModified d P_password then (Inr d, [])
      else (case password d of
              None \<Rightarrow> (Inl IllegalArguments, [GenSalt])
            | Some p \<Rightarrow>
                (Inr (d\<lparr>password := Some (bcrypt_hash c p (salt amb))\<rparr>), [GenSalt, Hash p])))"

text \<open>An update of one document by id changes the first document with that id.\<close>

fun update_by_id :: "nat \<Rightarrow> (user \<Rightarrow> user) \<Rightarrow> store \<Rightarrow> store" where
  "update_by_id i f [] = []"
| "update_by_id i f (u # us) = (if user_id u = i then f u # us else u # update_by_id i f us)"

definition apply_modified :: "document \<Rightarrow> user \<Rightarrow> user" where
  "apply_modified d u = foldr (\<lambda>p. setValue p (getValue p d)) (modifiedPaths d) u"

definition email_taken :: "store \<Rightarrow> nat \<Rightarrow> string option \<Rightarrow> bool" where
  "email_taken st i e = (\<exists>u \<in> set st. user_id u \<noteq> i \<and> email u = e)"

text \<open>
  \<open>document.save()\<close>: validate, run the pre-save hook, then insert a new document
  or write the modified paths of a loaded one. The collection has unique indexes on
  \<open>_id\<close> and on \<open>email\<close>.
\<close>

definition save ::
  "collaborators \<Rightarrow> ambient \<Rightarrow> document \<Rightarrow> store \<Rightarrow> (error + document) \<times> store \<times> event list" where
  "save c amb d st =
     (case validate d of
        p # ps \<Rightarrow> (Inl (ValidationError (p # ps)), st, [])
      | [] \<Rightarrow>
         (case pre_save c amb d of
            (Inl e, evs) \<Rightarrow> (Inl e, st, evs)
          | (Inr d', evs) \<Rightarrow>
              if isNew d' then
                (if (\<exists>u \<in> set st. user_id u = user_id d') \<or> email_taken st (user_id d') (email d')
                 then (Inl DuplicateKey, st, evs @ [InsertOne (user_id d')])
                 else (Inr (d'\<lparr>isNew := False, modifiedPaths := []\<rparr>),
                       st @ [toObject d'], evs @ [InsertOne (user_id d')]))
              else if modifiedPaths d' = [] then (Inr d', st, evs)
              else if \<not> (\<exists>u \<in> set st. user_id u = user_id d')
                then (Inl DocumentNotFound, st, evs @ [UpdateOne (user_id d')])
              else if isModified d' P_email \<and> email_taken st (user_id d') (email d')
                then (Inl DuplicateKey, st, evs @ [UpdateOne (user_id d')])
              else (Inr (d'\<lparr>modifiedPaths := []\<rparr>),
                    update_by_id (user_id d') (apply_modified d') st,
                    evs @ [UpdateOne (user_id d')])))"

text \<open>
  \<open>new User({name, email, password, role, tenantId})\<close>: the given values are set
  and marked modified, \<open>role\<close> defaults to \<open>student\<close> and \<open>createdAt\<close> to now.
\<close>

definition new_document :: "ambient \<Rightarrow> body \<Rightarrow> document" where
  "new_document amb b =
     \<lparr>user_id = objectId amb, name = body_name b, email = body_email b,
      role = (case body_role b of None \<Rightarrow> Some ''student'' | Some r \<Rightarrow> Some r),
      password = body_password b, tenantId = body_tenantId b, createdAt = now amb,
      isNew = True,
      modifiedPaths =
        (if body_name b = None then [] else [P_name]) @
        (if body_email b = None then [] else [P_email]) @
        (if body_password b = None then [] else [P_password]) @
        (if body_role b = None then [] else [P_role]) @
        (if body_tenantId b = None then [] else [P_tenantId])\<rparr>"

definition create ::
  "collaborators \<Rightarrow> ambient \<Rightarrow> body \<Rightarrow> store \<Rightarrow> (error + document) \<times> store \<times> event list" where
  "create c amb b st = save c amb (new_document amb b) st"

definition findOne :: "store \<Rightarrow> string \<Rightarrow> user option" where
  "findOne st e = find (\<lambda>u. email u = Some e) st"

definition findById :: "store \<Rightarrow> nat \<Rightarrow> user option" where
  "findById st i = find (\<lambda>u. user_id u = i) st"

section \<open>The model: queries\<close>

text \<open>
  \<open>User.findByIdAndUpdate(id, {name, email}, {new: true, runValidators: true})\<close>:
  keys whose value is absent are dropped from the update; the validators of the paths that
  remain are run; the updated document is returned under the default projection, which
  leaves the password out. No save hook runs.
\<close>

definition findByIdAndUpdate ::
  "nat \<Rightarrow> string option \<Rightarrow> string option \<Rightarrow> store
     \<Rightarrow> (error + document option) \<times> store \<times> event list" where
  "findByIdAndUpdate i nm em st =
     (let bad = (if nm \<noteq> None \<and> \<not> valid_name nm then [P_name] else []) @
                (if em \<noteq> None \<and> \<not> valid_email em then [P_email] else [])
      in if bad \<noteq> [] then (Inl (ValidationError bad), st, [])
         else (case findById st i of
                 None \<Rightarrow> (Inr None, st, [FindByIdAndUpdate i])
               | Some u \<Rightarrow>
                   if em \<noteq> None \<and> email_taken st i em
                   then (Inl DuplicateKey, st, [FindByIdAndUpdate i])
                   else (let u' = u\<lparr>name := (case nm of None \<Rightarrow> name u | Some n \<Rightarrow> Some n),
                                     email := (case em of None \<Rightarrow> email u | Some e \<Rightarrow> Some e)\<rparr>
                         in (Inr (Some (hydrate False u')),
                             update_by_id i (\<lambda>x. u') st,
                             [FindByIdAndUpdate i]))))"

section \<open>The model: schema methods\<close>

text \<open>\<open>getSignedJwtToken\<close>: sign the id, name, role and tenant of the document.\<close>

definition getSignedJwtToken :: "collaborators \<Rightarrow> config \<Rightarrow> document \<Rightarrow> string" where
  "getSignedJwtToken c cfg d =
     jwt_sign c
       \<lparr>claims_id = user_id d, claims_name = name d, claims_role = role d,
        claims_tenantId = tenantId d\<rparr>
       (JWT_SECRET cfg) (JWT_EXPIRE cfg)"

text \<open>
  \<open>matchPassword\<close>: compare the entered password with the document's digest. The
  library rejects arguments that are not strings.
\<close>

definition matchPassword ::
  "collaborators \<Rightarrow> document \<Rightarrow> string option \<Rightarrow> (error + bool) \<times> event list" where
  "matchPassword c d enteredPassword =
     (case (enteredPassword, password d) of
        (Some e, Some h) \<Rightarrow> (Inr (bcrypt_compare c e h), [Compare e])
      | _ \<Rightarrow> (Inl IllegalArguments, []))"

text \<open>The same method on a password as the body gave it: a value that is no string is rejected.\<close>

definition matchPassword_json ::
  "collaborators \<Rightarrow> document \<Rightarrow> jsvalue option \<Rightarrow> (error + bool) \<times> event list" where
  "matchPassword_json c d enteredPassword =
     (case (enteredPassword, password d) of
        (Some (JString e), Some h) \<Rightarrow> (Inr (bcrypt_compare c e h), [Compare e])
      | _ \<Rightarrow> (Inl IllegalArguments, []))"

section \<open>The model: responses\<close>

record cookie =
  cookie_name :: string
  cookie_value :: string
  expires :: int
  httpOnly :: bool
  secure :: "bool option"
  cookie_path :: "string option"
  sameSite :: "string option"

datatype json =
  TokenJson string
  | DataJson "user option"
  | EmptyDataJson

record response =
  status :: nat
  cookies :: "cookie list"
  json_body :: json

definition sendTokenResponse ::
  "collaborators \<Rightarrow> config \<Rightarrow> ambient \<Rightarrow> document \<Rightarrow> nat \<Rightarrow> response" where
  "sendTokenResponse c cfg amb user statusCode =
     (let token = getSignedJwtToken c cfg user;
          options = \<lparr>cookie_name = ''token'', cookie_value = token,
                     expires = now amb + COOKIE_EXPIRE cfg * 24 * 60 * 60 * 1000,
                     httpOnly = True,
                     secure = Some (NODE_ENV cfg = ''production''),
                     cookie_path = Some ''/'',
                     sameSite = Some ''lax''\<rparr>
      in \<lparr>status = statusCode, cookies = [options], json_body = TokenJson token\<rparr>)"

section \<open>The model: controllers\<close>

text \<open>
  A controller either sends a response or hands an error to \<open>next\<close>; it returns the
  store it leaves and the store and hashing operations it performed, in order.
\<close>

type_synonym 'a effect = "(error + 'a) \<times> store \<times> event list"

definition register ::
  "collaborators \<Rightarrow> config \<Rightarrow> ambient \<Rightarrow> body \<Rightarrow> store \<Rightarrow> response effect" where
  "register c cfg amb b st =
     (case create c amb b st of
        (Inl e, st', evs) \<Rightarrow> (Inl e, st', evs)
      | (Inr user, st', evs) \<Rightarrow> (Inr (sendTokenResponse c cfg amb user 200), st', evs))"

definition login ::
  "collaborators \<Rightarrow> config \<Rightarrow> ambient \<Rightarrow> body \<Rightarrow> store \<Rightarrow> response effect" where
  "login c cfg amb b st =
     (if \<not> truthy (body_email b) \<or> \<not> truthy (body_password b)
      then (Inl (ErrorResponse ''Please provide an email and password'' 400), st, [])
      else (case body_email b of
              None \<Rightarrow> (Inl (ErrorResponse ''Please provide an email and password'' 400), st, [])
            | Some e \<Rightarrow>
               (case findOne st e of
                  None \<Rightarrow> (Inl (ErrorResponse ''Invalid credentials'' 401), st, [FindOne e])
                | Some u \<Rightarrow>
                   (let user = hydrate True u in
                    case matchPassword c user (body_password b) of
                      (Inl err, evs) \<Rightarrow> (Inl err, st, FindOne e # evs)
                    | (Inr isMatch, evs) \<Rightarrow>
                        if \<not> isMatch
                        then (Inl (ErrorResponse ''Invalid credentials'' 401), st, FindOne e # evs)
                        else (Inr (sendTokenResponse c cfg amb user 200), st, FindOne e # evs)))))"

text \<open>
  \<open>login\<close> on the email \<open>em\<close> and the password \<open>pw\<close> as the body gave it,
  the password of any JSON type. The presence
  check tests truthiness only, so a number, \<open>true\<close>, an array or an object passes it
  and reaches \<open>matchPassword\<close>. On a password that is a string or absent this is
  \<open>login\<close> above.
\<close>

definition login_json ::
  "collaborators \<Rightarrow> config \<Rightarrow> ambient \<Rightarrow> string option \<Rightarrow> jsvalue option \<Rightarrow> store
     \<Rightarrow> response effect" where
  "login_json c cfg amb em pw st =
     (if \<not> truthy em \<or> \<not> js_truthy pw
      then (Inl (ErrorResponse ''Please provide an email and password'' 400), st, [])
      else (case em of
              None \<Rightarrow> (Inl (ErrorResponse ''Please provide an email and password'' 400), st, [])
            | Some e \<Rightarrow>
               (case findOne st e of
                  None \<Rightarrow> (Inl (ErrorResponse ''Invalid credentials'' 401), st, [FindOne e])
                | Some u \<Rightarrow>
                   (let user = hydrate True u in
                    case matchPassword_json c user pw of
                      (Inl err, evs) \<Rightarrow> (Inl err, st, FindOne e # evs)
                    | (Inr isMatch, evs) \<Rightarrow>
                        if \<not> isMatch
                        then (Inl (ErrorResponse ''Invalid credentials'' 401), st, FindOne e # evs)
                        else (Inr (sendTokenResponse c cfg amb user 200), st, FindOne e # evs)))))"

definition logout :: "ambient \<Rightarrow> store \<Rightarrow> response effect" where
  "logout amb st =
     (Inr \<lparr>status = 200,
           cookies = [\<lparr>cookie_name = ''token'', cookie_value = ''none'',
                       expires = now amb + 10 * 1000,
                       httpOnly = True, secure = None,
                       cookie_path = Some ''/'', sameSite = None\<rparr>],
           json_body = EmptyDataJson\<rparr>,
      st, [])"

text \<open>
  \<open>updateDetails\<close> and \<open>updatePassword\<close> read \<open>req.user.id\<close>; with no user on
  the request (\<open>null\<close>) the read throws a \<open>TypeError\<close>.
\<close>

definition updateDetails ::
  "document option \<Rightarrow> body \<Rightarrow> store \<Rightarrow> response effect" where
  "updateDetails req_user b st =
     (case req_user of
        None \<Rightarrow> (Inl TypeError, st, [])
      | Some ru \<Rightarrow>
         (case findByIdAndUpdate (user_id ru) (body_name b) (body_email b) st of
            (Inl e, st', evs) \<Rightarrow> (Inl e, st', evs)
          | (Inr user, st', evs) \<Rightarrow>
              (Inr \<lparr>status = 200, cookies = [],
                    json_body = DataJson (map_option toObject user)\<rparr>, st', evs)))"

definition updatePassword ::
  "collaborators \<Rightarrow> config \<Rightarrow> ambient \<Rightarrow> document option \<Rightarrow> body \<Rightarrow> store
     \<Rightarrow> response effect" where
  "updatePassword c cfg amb req_user b st =
     (case req_user of
        None \<Rightarrow> (Inl TypeError, st, [])
      | Some ru \<Rightarrow>
         (case findById st (user_id ru) of
            None \<Rightarrow> (Inl TypeError, st, [FindById (user_id ru)])
          | Some u \<Rightarrow>
             (let user = hydrate True u in
              case matchPassword c user (body_currentPassword b) of
                (Inl err, evs) \<Rightarrow> (Inl err, st, FindById (user_id ru) # evs)
              | (Inr isMatch, evs) \<Rightarrow>
                  if \<not> isMatch
                  then (Inl (ErrorResponse ''Current password is incorrect'' 401), st,
                        FindById (user_id ru) # evs)
                  else (case save c amb (doc_set P_password (body_newPassword b) user) st of
                          (Inl e, st', evs') \<Rightarrow> (Inl e, st', FindById (user_id ru) # evs @ evs')
                        | (Inr user', st', evs') \<Rightarrow>
                            (Inr (sendTokenResponse c cfg amb user' 200), st',
                             FindById (user_id ru) # evs @ evs')))))"

section \<open>The model: the access guard\<close>

text \<open>
  \<open>s.split(' ')\<close> cuts at every single space, keeping empty pieces, and
  \<open>xs[1]\<close> is absent when the list has fewer than two pieces.
\<close>

fun split_space :: "string \<Rightarrow> string list" where
  "split_space [] = [[]]"
| "split_space (x # xs) =
     (if x = CHR '' '' then [] # split_space xs
      else (case split_space xs of
              [] \<Rightarrow> [[x]]
            | w # ws \<Rightarrow> (x # w) # ws))"

definition index1 :: "string list \<Rightarrow> string option" where
  "index1 xs = (case xs of _ # y # _ \<Rightarrow> Some y | _ \<Rightarrow> None)"

definition startsWith :: "string \<Rightarrow> string \<Rightarrow> bool" where
  "startsWith s p = (take (length p) s = p)"

definition extract_token :: "request \<Rightarrow> string option" where
  "extract_token req =
     (case authorization req of
        Some h \<Rightarrow>
          if h \<noteq> [] \<and> startsWith h ''Bearer'' then index1 (split_space h)
          else if truthy (cookies_token req) then cookies_token req
          else None
      | None \<Rightarrow> if truthy (cookies_token req) then cookies_token req else None)"

definition not_authorized :: error where
  "not_authorized = ErrorResponse ''Not authorized to access this route'' 401"

text \<open>
  \<open>protect\<close> returns the error it hands to \<open>next\<close>, or the value it stored in
  \<open>req.user\<close> before calling \<open>next()\<close>: the user's document, or \<open>None\<close> for
  \<open>null\<close> when the id matches no user. The verification and the lookup stand in one
  \<open>try\<close>: a lookup that throws ends in the \<open>catch\<close>, with the same error as a
  token that does not verify.
\<close>

definition protect ::
  "collaborators \<Rightarrow> config \<Rightarrow> request \<Rightarrow> store \<Rightarrow> (error + document option) \<times> event list" where
  "protect c cfg req st =
     (case extract_token req of
        None \<Rightarrow> (Inl not_authorized, [])
      | Some token \<Rightarrow>
          if token = [] then (Inl not_authorized, [])
          else (case jwt_verify c token (JWT_SECRET cfg) of
                  None \<Rightarrow> (Inl not_authorized, [])
                | Some decoded \<Rightarrow>
                    if findById_throws c (claims_id decoded)
                    then (Inl not_authorized, [FindById (claims_id decoded)])
                    else (Inr (map_option (hydrate False) (findById st (claims_id decoded))),
                          [FindById (claims_id decoded)])))"

section \<open>The model: the seed script\<close>

definition seedAdmin :: "collaborators \<Rightarrow> ambient \<Rightarrow> store \<Rightarrow> document effect" where
  "seedAdmin c amb st =
     (case findOne st ''admin@cityschool.com'' of
        Some u \<Rightarrow>
          (let adminExists = doc_set P_name (Some ''Super Admin'')
                               (doc_set P_role (Some ''super-admin'') (hydrate False u))
           in case save c amb adminExists st of
                (r, st', evs) \<Rightarrow> (r, st', FindOne ''admin@cityschool.com'' # evs))
      | None \<Rightarrow>
          (case create c amb
                  \<lparr>body_name = Some ''Super Admin'', body_email = Some ''admin@cityschool.com'',
                   body_password = Some ''adminpassword123'', body_role = Some ''super-admin'',
                   body_tenantId = Some ''HQ-GLOBAL'', body_currentPassword = None,
                   body_newPassword = None\<rparr> st of
             (r, st', evs) \<Rightarrow> (r, st', FindOne ''admin@cityschool.com'' # evs)))"

section \<open>The model: routes and runs\<close>

text \<open>
  The router mounts \<open>register\<close>, \<open>login\<close> and \<open>logout\<close> directly and puts
  \<open>protect\<close> in front of \<open>updateDetails\<close> and \<open>updatePassword\<close>.
\<close>

datatype api_call =
  POST_register body
  | POST_login body
  | GET_logout
  | PUT_updatedetails request
  | PUT_updatepassword request

definition route ::
  "collaborators \<Rightarrow> config \<Rightarrow> ambient \<Rightarrow> api_call \<Rightarrow> store \<Rightarrow> response effect" where
  "route c cfg amb call st =
     (case call of
        POST_register b \<Rightarrow> register c cfg amb b st
      | POST_login b \<Rightarrow> login c cfg amb b st
      | GET_logout \<Rightarrow> logout amb st
      | PUT_updatedetails req \<Rightarrow>
          (case protect c cfg req st of
             (Inl e, evs) \<Rightarrow> (Inl e, st, evs)
           | (Inr ru, evs) \<Rightarrow>
               (case updateDetails ru (req_body req) st of
                  (r, st', evs') \<Rightarrow> (r, st', evs @ evs')))
      | PUT_updatepassword req \<Rightarrow>
          (case protect c cfg req st of
             (Inl e, evs) \<Rightarrow> (Inl e, st, evs)
           | (Inr ru, evs) \<Rightarrow>
               (case updatePassword c cfg amb ru (req_body req) st of
                  (r, st', evs') \<Rightarrow> (r, st', evs @ evs'))))"

text \<open>
  An operation on the store is a request to the API or a run of the seed script; each
  comes with the ambient values it draws.
\<close>

datatype operation = Request api_call | Seed

definition step :: "collaborators \<Rightarrow> config \<Rightarrow> ambient \<Rightarrow> operation \<Rightarrow> store \<Rightarrow> store \<times> event list" where
  "step c cfg amb operation st =
     (case operation of
        Request call \<Rightarrow> snd (route c cfg amb call st)
      | Seed \<Rightarrow> snd (seedAdmin c amb st))"

fun run :: "collaborators \<Rightarrow> config \<Rightarrow> (ambient \<times> operation) list \<Rightarrow> store \<Rightarrow> store" where
  "run c cfg [] st = st"
| "run c cfg (x # xs) st = run c cfg xs (fst (step c cfg (fst x) (snd x) st))"

definition hash_count :: "event list \<Rightarrow> nat" where
  "hash_count evs = length (filter (\<lambda>e. case e of Hash p \<Rightarrow> True | _ \<Rightarrow> False) evs)"

section \<open>Contracts of the collaborators\<close>

text \<open>
  What the code relies on: comparing a plaintext with its own digest succeeds, a digest
  is never the plaintext it was computed from, and verifying a token with the secret it
  was signed with gives back the signed payload.
\<close>

definition compare_accepts_hash :: "collaborators \<Rightarrow> bool" where
  "compare_accepts_hash c = (\<forall>p s. bcrypt_compare c p (bcrypt_hash c p s))"

definition hash_differs_from_plaintext :: "collaborators \<Rightarrow> bool" where
  "hash_differs_from_plaintext c = (\<forall>p s. bcrypt_hash c p s \<noteq> p)"

definition verify_inverts_sign :: "collaborators \<Rightarrow> bool" where
  "verify_inverts_sign c = (\<forall>payload secret e. jwt_verify c (jwt_sign c payload secret e) secret = Some payload)"

section \<open>Properties of stored passwords and of cookies\<close>

text \<open>A digest is a value of the hash function; a store is sound when every password is one.\<close>

definition is_digest :: "collaborators \<Rightarrow> string option \<Rightarrow> bool" where
  "is_digest c v = (\<exists>p s. v = Some (bcrypt_hash c p s))"

definition stored_digests :: "collaborators \<Rightarrow> store \<Rightarrow> bool" where
  "stored_digests c st = list_all (\<lambda>u. is_digest c (password u)) st"

text \<open>
  How a step may change the stored passwords: every password of the new store is a
  password of the old store, or the digest, computed with the salt of this step, of a
  plaintext that the step hashed.
\<close>

definition passwords_kept_or_hashed ::
  "collaborators \<Rightarrow> ambient \<Rightarrow> store \<Rightarrow> event list \<Rightarrow> store \<Rightarrow> bool" where
  "passwords_kept_or_hashed c amb st evs st' =
     list_all (\<lambda>u'. password u' \<in> set (map password st) \<or>
                     (\<exists>p. Hash p \<in> set evs \<and> password u' = Some (bcrypt_hash c p (salt amb)))) st'"

text \<open>
  The discipline of a step: at most one hash, passwords kept or hashed once, and no
  password changed without a hash.
\<close>

definition password_discipline ::
  "collaborators \<Rightarrow> ambient \<Rightarrow> store \<Rightarrow> store \<Rightarrow> event list \<Rightarrow> bool" where
  "password_discipline c amb st st' evs =
     (hash_count evs \<le> 1 \<and> passwords_kept_or_hashed c amb st evs st' \<and>
      (hash_count evs = 0 \<longrightarrow> map password st' = map password st))"

text \<open>
  The cookie contract in the words of the specification: the name \<open>token\<close>, the
  attributes \<open>httpOnly\<close>, \<open>path=/\<close> and \<open>sameSite=lax\<close>, and \<open>secure\<close> in
  production only.
\<close>

definition spec_cookie_contract :: "config \<Rightarrow> cookie \<Rightarrow> bool" where
  "spec_cookie_contract cfg ck =
     (cookie_name ck = ''token'' \<and> httpOnly ck \<and> cookie_path ck = Some ''/'' \<and>
      sameSite ck = Some ''lax'' \<and>
      (secure ck = Some True) = (NODE_ENV cfg = ''production''))"

section \<open>A reference instance of the collaborators\<close>

text \<open>
  A small executable instance that meets the contracts: the digest is the salt, a
  separator and the plaintext; a token lists the secret and the payload, each field
  behind its length in unary.
\<close>

definition ref_hash :: "string \<Rightarrow> string \<Rightarrow> string" where
  "ref_hash p s = s @ CHR ''$'' # p"

definition ref_compare :: "string \<Rightarrow> string \<Rightarrow> bool" where
  "ref_compare p h =
     (length p < length h \<and> drop (length h - Suc (length p)) h = CHR ''$'' # p)"

definition enc_field :: "string \<Rightarrow> string" where
  "enc_field s = replicate (length s) CHR ''1'' @ CHR ''0'' # s"

definition dec_field :: "string \<Rightarrow> (string \<times> string) option" where
  "dec_field t =
     (let n = length (takeWhile (\<lambda>x. x = CHR ''1'') t);
          r = drop (Suc n) t
      in if n < length t \<and> n \<le> length r then Some (take n r, drop n r) else None)"

definition enc_opt :: "string option \<Rightarrow> string" where
  "enc_opt v = (case v of None \<Rightarrow> enc_field ''N'' | Some s \<Rightarrow> enc_field (CHR ''S'' # s))"

definition dec_opt :: "string \<Rightarrow> (string option \<times> string) option" where
  "dec_opt t =
     (case dec_field t of
        None \<Rightarrow> None
      | Some (f, r) \<Rightarrow>
          (case f of
             [] \<Rightarrow> None
           | x # s \<Rightarrow>
               if x = CHR ''S'' then Some (Some s, r)
               else if x = CHR ''N'' \<and> s = [] then Some (None, r)
               else None))"

definition ref_sign :: "claims \<Rightarrow> string \<Rightarrow> string \<Rightarrow> string" where
  "ref_sign payload secret e =
     enc_field secret @ enc_field (replicate (claims_id payload) CHR ''i'') @
     enc_opt (claims_name payload) @ enc_opt (claims_role payload) @
     enc_opt (claims_tenantId payload)"

definition ref_verify :: "string \<Rightarrow> string \<Rightarrow> claims option" where
  "ref_verify token secret =
     (case dec_field token of
        None \<Rightarrow> None
      | Some (k, r1) \<Rightarrow>
          if k \<noteq> secret then None
          else (case dec_field r1 of
                  None \<Rightarrow> None
                | Some (i, r2) \<Rightarrow>
                    if i \<noteq> replicate (length i) CHR ''i'' then None
                    else (case dec_opt r2 of
                            None \<Rightarrow> None
                          | Some (n, r3) \<Rightarrow>
                              (case dec_opt r3 of
                                 None \<Rightarrow> None
                               | Some (r, r4) \<Rightarrow>
                                   (case dec_opt r4 of
                                      None \<Rightarrow> None
                                    | Some (t, r5) \<Rightarrow>
                                        if r5 \<noteq> [] then None
                                        else Some \<lparr>claims_id = length i, claims_name = n,
                                                   claims_role = r, claims_tenantId = t\<rparr>)))))"

definition ref_collaborators :: collaborators where
  "ref_collaborators =
     \<lparr>bcrypt_hash = ref_hash, bcrypt_compare = ref_compare,
      jwt_sign = ref_sign, jwt_verify = ref_verify, findById_throws = (\<lambda>i. False)\<rparr>"

text \<open>The same libraries in front of a database that cannot be reached.\<close>

definition unreachable_database :: collaborators where
  "unreachable_database = ref_collaborators\<lparr>findById_throws := (\<lambda>i. True)\<rparr>"

section \<open>Example data\<close>

definition production :: config where
  "production = \<lparr>JWT_SECRET = ''k'', JWT_EXPIRE = ''30d'', COOKIE_EXPIRE = 30,
                 NODE_ENV = ''production''\<rparr>"

definition at_start :: ambient where
  "at_start = \<lparr>now = 1000, salt = ''s'', objectId = 1\<rparr>"

definition no_body :: body where
  "no_body = \<lparr>body_name = None, body_email = None, body_password = None, body_role = None,
              body_tenantId = None, body_currentPassword = None, body_newPassword = None\<rparr>"

definition alice_registration :: body where
  "alice_registration =
     no_body\<lparr>body_name := Some ''A'', body_email := Some ''a@b.com'',
             body_password := Some ''secret1'', body_role := Some ''student'',
             body_tenantId := Some ''S1''\<rparr>"

text \<open>The store after Alice registered into the empty store.\<close>

definition alice :: user where
  "alice = \<lparr>user_id = 1, name = Some ''A'', email = Some ''a@b.com'', role = Some ''student'',
            password = Some ''s$secret1'', tenantId = Some ''S1'', createdAt = 1000\<rparr>"

definition later :: ambient where
  "later = \<lparr>now = 2000, salt = ''t'', objectId = 2\<rparr>"

text \<open>A user registered under the email that the seed script looks for.\<close>

definition root_registration :: body where
  "root_registration =
     no_body\<lparr>body_name := Some ''Root'', body_email := Some ''admin@cityschool.com'',
             body_password := Some ''rootpw1'', body_tenantId := Some ''HQ''\<rparr>"

definition root :: user where
  "root = \<lparr>user_id = 2, name = Some ''Root'', email = Some ''admin@cityschool.com'',
           role = Some ''student'', password = Some ''t$rootpw1'', tenantId = Some ''HQ'',
           createdAt = 2000\<rparr>"

definition alice_token :: string where
  "alice_token = ''10k10i110SA111111110Sstudent1110SS1''"

section \<open>The reference collaborators meet the contracts\<close>

lemma ref_compare_hash: "ref_compare p (ref_hash p s)"
  by (simp add: ref_compare_def ref_hash_def)

lemma ref_hash_not_plain: "ref_hash p s \<noteq> p"
proof
  assume "ref_hash p s = p"
  then have "length (ref_hash p s) = length p" by simp
  then show False by (simp add: ref_hash_def)
qed

lemma dec_enc_field: "dec_field (enc_field s @ r) = Some (s, r)"
proof -
  have tw: "takeWhile (\<lambda>x. x = CHR ''1'') (replicate (length s) CHR ''1'' @ CHR ''0'' # s @ r)
            = replicate (length s) CHR ''1''"
    by (simp add: takeWhile_tail)
  show ?thesis
    unfolding dec_field_def enc_field_def Let_def
    by (simp add: tw)
qed

lemma dec_enc_opt: "dec_opt (enc_opt v @ r) = Some (v, r)"
  by (cases v) (simp_all add: dec_opt_def enc_opt_def dec_enc_field)

lemma ref_verify_sign: "ref_verify (ref_sign payload secret e) secret = Some payload"
proof -
  have last: "dec_opt (enc_opt v) = Some (v, [])" for v
    using dec_enc_opt [of v "[]"] by simp
  show ?thesis
    unfolding ref_verify_def ref_sign_def
    by (simp add: dec_enc_field dec_enc_opt last)
qed

lemma ref_compare_accepts_hash: "compare_accepts_hash ref_collaborators"
  by (simp add: compare_accepts_hash_def ref_collaborators_def ref_compare_hash)

lemma ref_hash_differs: "hash_differs_from_plaintext ref_collaborators"
  by (simp add: hash_differs_from_plaintext_def ref_collaborators_def ref_hash_not_plain)

lemma ref_verify_inverts_sign: "verify_inverts_sign ref_collaborators"
  by (simp add: verify_inverts_sign_def ref_collaborators_def ref_verify_sign)

lemma alice_token_verifies:
  "ref_verify alice_token ''k'' = Some \<lparr>claims_id = 1, claims_name = Some ''A'', claims_role = Some ''student'', claims_tenantId = Some ''S1''\<rparr>"
  by (simp add: alice_token_def ref_verify_def dec_field_def dec_opt_def Let_def)

lemma junk_token_rejected: "ref_verify ''junk'' ''k'' = None"
  by (simp add: ref_verify_def dec_field_def Let_def)

lemma findById_alice: "findById [alice] (Suc 0) = Some alice"
  by (simp add: findById_def alice_def)

section \<open>Login: the presence check\<close>

text \<open>
  Claim C9. A login request whose email or password is missing or empty fails at once
  with the error \<open>Please provide an email and password\<close> and status 400, and performs
  no operation on the store or the hashing library; when login performs any such
  operation, both fields were present and non-empty, and the first operation is then the
  lookup by the given email.
\<close>

theorem login_requires_both_fields:
  "(\<not> truthy (body_email b) \<or> \<not> truthy (body_password b) \<longrightarrow>
      login c cfg amb b st =
        (Inl (ErrorResponse ''Please provide an email and password'' 400), st, []))
   \<and> (snd (snd (login c cfg amb b st)) \<noteq> [] \<longrightarrow>
        truthy (body_email b) \<and> truthy (body_password b))
   \<and> (truthy (body_email b) \<and> truthy (body_password b) \<longrightarrow>
        (\<exists>e evs. body_email b = Some e \<and> snd (snd (login c cfg amb b st)) = FindOne e # evs))"
  by (auto simp: login_def truthy_def Let_def split: option.splits prod.splits sum.splits)

theorem login_requires_both_fields_witness:
  "\<not> truthy (body_password (no_body\<lparr>body_email := Some ''a@b.com''\<rparr>))
   \<and> login ref_collaborators production at_start (no_body\<lparr>body_email := Some ''a@b.com''\<rparr>) [alice] =
        (Inl (ErrorResponse ''Please provide an email and password'' 400), [alice], [])
   \<and> truthy (body_email (no_body\<lparr>body_email := Some ''a@b.com'', body_password := Some ''secret1''\<rparr>))
   \<and> truthy (body_password (no_body\<lparr>body_email := Some ''a@b.com'', body_password := Some ''secret1''\<rparr>))
   \<and> hd (snd (snd (login ref_collaborators production at_start
          (no_body\<lparr>body_email := Some ''a@b.com'', body_password := Some ''secret1''\<rparr>) [alice])))
        = FindOne ''a@b.com''"
  using login_requires_both_fields [of "no_body\<lparr>body_email := Some ''a@b.com''\<rparr>"
          ref_collaborators production at_start "[alice]"]
        login_requires_both_fields [of "no_body\<lparr>body_email := Some ''a@b.com'', body_password := Some ''secret1''\<rparr>"
          ref_collaborators production at_start "[alice]"]
  by (auto simp: truthy_def no_body_def)

section \<open>The access guard\<close>

lemma extract_token_header:
  "authorization req = Some h \<Longrightarrow> startsWith h ''Bearer'' \<Longrightarrow>
     extract_token req = index1 (split_space h)"
  by (auto simp: extract_token_def startsWith_def)

lemma extract_token_cookie:
  "authorization req = None \<or> (\<exists>h. authorization req = Some h \<and> \<not> startsWith h ''Bearer'') \<Longrightarrow>
     extract_token req = (if truthy (cookies_token req) then cookies_token req else None)"
  by (auto simp: extract_token_def)

lemma protect_no_token:
  "\<not> truthy (extract_token req) \<Longrightarrow> protect c cfg req st = (Inl not_authorized, [])"
  by (auto simp: protect_def truthy_def split: option.splits)

lemma protect_verify_fails:
  "extract_token req = Some t \<Longrightarrow> jwt_verify c t (JWT_SECRET cfg) = None \<Longrightarrow>
     protect c cfg req st = (Inl not_authorized, [])"
  by (auto simp: protect_def)

lemma protect_verified:
  "extract_token req = Some t \<Longrightarrow> t \<noteq> [] \<Longrightarrow> jwt_verify c t (JWT_SECRET cfg) = Some decoded \<Longrightarrow>
     protect c cfg req st =
       (if findById_throws c (claims_id decoded) then Inl not_authorized
        else Inr (map_option (hydrate False) (findById st (claims_id decoded))),
        [FindById (claims_id decoded)])"
  by (auto simp: protect_def)

lemma ref_database_answers: "findById_throws ref_collaborators i = False"
  by (simp add: ref_collaborators_def)

text \<open>
  Claim C2. \<open>protect\<close> takes the token from the Authorization header when the header
  is present and starts with \<open>Bearer\<close>, and from the \<open>token\<close> cookie otherwise.
  Without a token it fails with \<open>Not authorized to access this route\<close> and status 401
  and performs no store operation; when verification of the token fails it fails with the
  same error; when verification succeeds it looks the embedded id up and passes on, or
  fails with the same error again when the lookup throws.
\<close>

theorem protect_token_source_and_failures:
  "(\<forall>h. authorization req = Some h \<and> startsWith h ''Bearer'' \<longrightarrow>
        extract_token req = index1 (split_space h))
   \<and> (authorization req = None \<or> (\<exists>h. authorization req = Some h \<and> \<not> startsWith h ''Bearer'') \<longrightarrow>
        extract_token req = (if truthy (cookies_token req) then cookies_token req else None))
   \<and> (\<not> truthy (extract_token req) \<longrightarrow>
        protect c cfg req st = (Inl (ErrorResponse ''Not authorized to access this route'' 401), []))
   \<and> (\<forall>t. extract_token req = Some t \<and> jwt_verify c t (JWT_SECRET cfg) = None \<longrightarrow>
        protect c cfg req st = (Inl (ErrorResponse ''Not authorized to access this route'' 401), []))
   \<and> (\<forall>t decoded. extract_token req = Some t \<and> t \<noteq> [] \<and>
          jwt_verify c t (JWT_SECRET cfg) = Some decoded \<longrightarrow>
        protect c cfg req st =
          (if findById_throws c (claims_id decoded)
           then Inl (ErrorResponse ''Not authorized to access this route'' 401)
           else Inr (map_option (hydrate False) (findById st (claims_id decoded))),
           [FindById (claims_id decoded)]))"
  using extract_token_header [of req] extract_token_cookie [of req] protect_no_token [of req c cfg st]
    protect_verify_fails [of req _ c cfg st] protect_verified [of req _ c cfg _ st]
  unfolding not_authorized_def by blast

theorem protect_token_source_and_failures_witness:
  "protect ref_collaborators production
      \<lparr>authorization = None, cookies_token = None, req_body = no_body\<rparr> [alice]
     = (Inl (ErrorResponse ''Not authorized to access this route'' 401), [])
   \<and> protect ref_collaborators production
      \<lparr>authorization = None, cookies_token = Some ''junk'', req_body = no_body\<rparr> [alice]
     = (Inl (ErrorResponse ''Not authorized to access this route'' 401), [])
   \<and> protect ref_collaborators production
      \<lparr>authorization = Some ''Bearer 10k10i110SA111111110Sstudent1110SS1'', cookies_token = Some ''junk'',
       req_body = no_body\<rparr> [alice]
     = (Inr (Some (hydrate False alice)), [FindById 1])"
proof -
  let ?none = "\<lparr>authorization = None, cookies_token = None, req_body = no_body\<rparr>"
  let ?junk = "\<lparr>authorization = None, cookies_token = Some ''junk'', req_body = no_body\<rparr>"
  let ?both = "\<lparr>authorization = Some ''Bearer 10k10i110SA111111110Sstudent1110SS1'', cookies_token = Some ''junk'',
                req_body = no_body\<rparr>"
  have secret: "JWT_SECRET production = ''k''" by (simp add: production_def)
  have verify: "jwt_verify ref_collaborators = ref_verify" by (simp add: ref_collaborators_def)
  have a: "\<not> truthy (extract_token ?none)"
    using protect_token_source_and_failures [of ?none ref_collaborators production "[alice]"]
    by (simp add: truthy_def)
  have b: "extract_token ?junk = Some ''junk''"
    using protect_token_source_and_failures [of ?junk ref_collaborators production "[alice]"]
    by (simp add: truthy_def)
  have c: "extract_token ?both = Some alice_token"
    using protect_token_source_and_failures [of ?both ref_collaborators production "[alice]"]
    by (simp add: startsWith_def index1_def alice_token_def)
  have nonempty: "alice_token \<noteq> []" by (simp add: alice_token_def)
  show ?thesis
    using protect_token_source_and_failures [of ?none ref_collaborators production "[alice]"]
      protect_token_source_and_failures [of ?junk ref_collaborators production "[alice]"]
      protect_token_source_and_failures [of ?both ref_collaborators production "[alice]"]
      a b c nonempty
    by (simp add: secret verify junk_token_rejected alice_token_verifies findById_alice
        ref_database_answers)
qed



text \<open>
  Claim C7, as stated: \<open>protect\<close> raises an error only when the token is missing or
  its verification fails. With a token that is present and verifies, and an id that no
  user has, a lookup that throws (here: the database cannot be reached) ends in the
  \<open>catch\<close> and the request fails with the 401 error.
\<close>

theorem protect_lookup_failure_counterexample:
  "extract_token \<lparr>authorization = None, cookies_token = Some alice_token, req_body = no_body\<rparr>
     = Some alice_token
   \<and> jwt_verify unreachable_database alice_token (JWT_SECRET production)
     = Some \<lparr>claims_id = 1, claims_name = Some ''A'', claims_role = Some ''student'',
             claims_tenantId = Some ''S1''\<rparr>
   \<and> findById [] 1 = None
   \<and> protect unreachable_database production
       \<lparr>authorization = None, cookies_token = Some alice_token, req_body = no_body\<rparr> []
     = (Inl (ErrorResponse ''Not authorized to access this route'' 401), [FindById 1])"
  by (simp add: protect_def extract_token_def truthy_def unreachable_database_def
      ref_collaborators_def production_def alice_token_verifies findById_def not_authorized_def)
     (simp add: alice_token_def)

text \<open>
  Claim C7, amended. When the token verifies, the lookup of its embedded id answers and
  the id matches no user, \<open>protect\<close> stores the absent user on the request and passes
  on. It hands an error to \<open>next\<close> exactly when no token was found, the verification
  of the token failed, or the lookup of the user threw; the error is the same 401 in
  each case.
\<close>

theorem protect_passes_unresolved_identity:
  "(\<forall>t decoded. extract_token req = Some t \<and> t \<noteq> [] \<and>
        jwt_verify c t (JWT_SECRET cfg) = Some decoded \<and>
        \<not> findById_throws c (claims_id decoded) \<and> findById st (claims_id decoded) = None \<longrightarrow>
      protect c cfg req st = (Inr None, [FindById (claims_id decoded)]))
   \<and> ((\<exists>e. fst (protect c cfg req st) = Inl e) \<longleftrightarrow>
        (\<not> truthy (extract_token req) \<or>
         (\<exists>t. extract_token req = Some t \<and> jwt_verify c t (JWT_SECRET cfg) = None) \<or>
         (\<exists>t decoded. extract_token req = Some t \<and>
            jwt_verify c t (JWT_SECRET cfg) = Some decoded \<and>
            findById_throws c (claims_id decoded))))
   \<and> (\<forall>e. fst (protect c cfg req st) = Inl e \<longrightarrow>
        e = ErrorResponse ''Not authorized to access this route'' 401)"
  by (auto simp: protect_def truthy_def not_authorized_def split: option.splits if_splits)

theorem protect_passes_unresolved_identity_witness:
  "extract_token \<lparr>authorization = None, cookies_token = Some alice_token, req_body = no_body\<rparr>
     = Some alice_token
   \<and> findById [] 1 = None
   \<and> protect ref_collaborators production
       \<lparr>authorization = None, cookies_token = Some alice_token, req_body = no_body\<rparr> []
     = (Inr None, [FindById 1])"
proof -
  let ?req = "\<lparr>authorization = None, cookies_token = Some alice_token, req_body = no_body\<rparr>"
  have nonempty: "alice_token \<noteq> []" by (simp add: alice_token_def)
  have t: "extract_token ?req = Some alice_token"
    using nonempty by (simp add: extract_token_def truthy_def)
  have v: "jwt_verify ref_collaborators alice_token (JWT_SECRET production)
             = Some \<lparr>claims_id = 1, claims_name = Some ''A'', claims_role = Some ''student'',
                      claims_tenantId = Some ''S1''\<rparr>"
    by (simp add: ref_collaborators_def production_def alice_token_verifies)
  have f: "findById [] 1 = None" by (simp add: findById_def)
  show ?thesis
    using protect_passes_unresolved_identity [of ?req ref_collaborators production "[]"] t v f nonempty
    by (simp add: ref_database_answers)
qed

section \<open>Example evaluations\<close>

lemma alice_email_valid: "valid_email (Some ''a@b.com'')"
  by code_simp

lemma register_alice:
  "register ref_collaborators production at_start alice_registration [] =
     (Inr \<lparr>status = 200,
           cookies = [\<lparr>cookie_name = ''token'', cookie_value = alice_token,
                       expires = 2592001000, httpOnly = True, secure = Some True,
                       cookie_path = Some ''/'', sameSite = Some ''lax''\<rparr>],
           json_body = TokenJson alice_token\<rparr>,
      [alice], [GenSalt, Hash ''secret1'', InsertOne 1])"
  by code_simp

section \<open>Cookies\<close>

lemma register_sends_token:
  "register c cfg amb b st = (Inr resp, st', evs) \<Longrightarrow> \<exists>d. resp = sendTokenResponse c cfg amb d 200"
  by (auto simp: register_def split: prod.splits sum.splits)

lemma login_sends_token:
  "login c cfg amb b st = (Inr resp, st', evs) \<Longrightarrow> \<exists>d. resp = sendTokenResponse c cfg amb d 200"
  by (auto simp: login_def Let_def split: prod.splits sum.splits option.splits if_splits)

lemma updatePassword_sends_token:
  "updatePassword c cfg amb ru b st = (Inr resp, st', evs) \<Longrightarrow>
     \<exists>d. resp = sendTokenResponse c cfg amb d 200"
  by (auto simp: updatePassword_def Let_def split: prod.splits sum.splits option.splits if_splits)

lemma updateDetails_sets_no_cookie:
  "updateDetails ru b st = (Inr resp, st', evs) \<Longrightarrow> cookies resp = []"
  by (auto simp: updateDetails_def split: prod.splits sum.splits option.splits)

lemma sendTokenResponse_cookie:
  "ck \<in> set (cookies (sendTokenResponse c cfg amb d code)) \<Longrightarrow>
     ck = \<lparr>cookie_name = ''token'', cookie_value = getSignedJwtToken c cfg d,
           expires = now amb + COOKIE_EXPIRE cfg * 24 * 60 * 60 * 1000,
           httpOnly = True, secure = Some (NODE_ENV cfg = ''production''),
           cookie_path = Some ''/'', sameSite = Some ''lax''\<rparr>
     \<and> json_body (sendTokenResponse c cfg amb d code) = TokenJson (getSignedJwtToken c cfg d)"
  by (simp add: sendTokenResponse_def Let_def)

lemma route_issuance:
  assumes "route c cfg amb call st = (Inr resp, st', evs)" and "call \<noteq> GET_logout"
    and "ck \<in> set (cookies resp)"
  shows "\<exists>d. resp = sendTokenResponse c cfg amb d 200"
proof (cases call)
  case (POST_register b)
  with assms show ?thesis by (auto simp: route_def dest: register_sends_token)
next
  case (POST_login b)
  with assms show ?thesis by (auto simp: route_def dest: login_sends_token)
next
  case GET_logout
  with assms show ?thesis by simp
next
  case (PUT_updatedetails req)
  with assms show ?thesis
    by (auto simp: route_def split: prod.splits sum.splits dest: updateDetails_sets_no_cookie)
next
  case (PUT_updatepassword req)
  with assms show ?thesis
    by (auto simp: route_def split: prod.splits sum.splits dest: updatePassword_sends_token)
qed

text \<open>
  Claim C6, as stated: every cookie the system sets meets the cookie contract of the
  specification. The cookie that \<open>logout\<close> sets in production has neither the
  \<open>sameSite\<close> nor the \<open>secure\<close> attribute, so the statement fails there.
\<close>

theorem logout_cookie_counterexample:
  "\<not> list_all (spec_cookie_contract production)
       (cookies (projr (fst (route ref_collaborators production at_start GET_logout []))))"
  by (simp add: route_def logout_def spec_cookie_contract_def)

text \<open>
  Claim C6, amended. Every cookie a route sets is named \<open>token\<close>, is \<open>httpOnly\<close>
  and has \<open>path=/\<close>. The cookie of \<open>logout\<close> has the value \<open>none\<close>, expires ten
  seconds from now and carries neither \<open>sameSite\<close> nor \<open>secure\<close>. Every other cookie
  (set by register, login or updatePassword) has \<open>sameSite=lax\<close>, is \<open>secure\<close> exactly
  in production, expires the configured number of days from now, and its value is the
  signed token that the response body carries.
\<close>

theorem cookies_set_by_the_routes:
  assumes "route c cfg amb call st = (Inr resp, st', evs)" and "ck \<in> set (cookies resp)"
  shows "cookie_name ck = ''token'' \<and> httpOnly ck \<and> cookie_path ck = Some ''/'' \<and>
         (if call = GET_logout
          then cookie_value ck = ''none'' \<and> expires ck = now amb + 10 * 1000 \<and>
               sameSite ck = None \<and> secure ck = None
          else sameSite ck = Some ''lax'' \<and> secure ck = Some (NODE_ENV cfg = ''production'') \<and>
               expires ck = now amb + COOKIE_EXPIRE cfg * 24 * 60 * 60 * 1000 \<and>
               json_body resp = TokenJson (cookie_value ck) \<and>
               (\<exists>d. cookie_value ck = getSignedJwtToken c cfg d))"
proof (cases "call = GET_logout")
  case True
  with assms show ?thesis by (auto simp: route_def logout_def)
next
  case False
  from route_issuance [OF assms(1) False assms(2)]
  obtain d where d: "resp = sendTokenResponse c cfg amb d 200" by blast
  from sendTokenResponse_cookie [of ck c cfg amb d 200] assms(2) d False
  show ?thesis by auto
qed

theorem cookies_set_by_the_routes_witness:
  "route ref_collaborators production at_start GET_logout [] =
     (Inr \<lparr>status = 200,
           cookies = [\<lparr>cookie_name = ''token'', cookie_value = ''none'', expires = 11000,
                       httpOnly = True, secure = None, cookie_path = Some ''/'',
                       sameSite = None\<rparr>],
           json_body = EmptyDataJson\<rparr>, [], [])
   \<and> route ref_collaborators production at_start (POST_register alice_registration) [] =
     (Inr \<lparr>status = 200,
           cookies = [\<lparr>cookie_name = ''token'', cookie_value = alice_token,
                       expires = 2592001000, httpOnly = True, secure = Some True,
                       cookie_path = Some ''/'', sameSite = Some ''lax''\<rparr>],
           json_body = TokenJson alice_token\<rparr>,
      [alice], [GenSalt, Hash ''secret1'', InsertOne 1])
   \<and> (\<exists>d. alice_token = getSignedJwtToken ref_collaborators production d)"
proof -
  let ?ck = "\<lparr>cookie_name = ''token'', cookie_value = ''none'', expires = 11000,
              httpOnly = True, secure = None, cookie_path = Some ''/'', sameSite = None\<rparr>"
  let ?resp = "\<lparr>status = 200, cookies = [?ck], json_body = EmptyDataJson\<rparr>"
  let ?ck2 = "\<lparr>cookie_name = ''token'', cookie_value = alice_token,
                       expires = 2592001000, httpOnly = True, secure = Some True,
                       cookie_path = Some ''/'', sameSite = Some ''lax''\<rparr>"
  let ?resp2 = "\<lparr>status = 200, cookies = [?ck2], json_body = TokenJson alice_token\<rparr>"
  have r: "route ref_collaborators production at_start GET_logout [] = (Inr ?resp, [], [])"
    by (simp add: route_def logout_def at_start_def)
  have m: "?ck \<in> set (cookies ?resp)" by simp
  have r2: "route ref_collaborators production at_start (POST_register alice_registration) [] =
     (Inr ?resp2, [alice], [GenSalt, Hash ''secret1'', InsertOne 1])"
    by (simp add: route_def register_alice)
  have m2: "?ck2 \<in> set (cookies ?resp2)" by simp
  from cookies_set_by_the_routes [OF r m] cookies_set_by_the_routes [OF r2 m2] r r2
  show ?thesis by simp
qed

section \<open>Login: failed credentials\<close>

text \<open>
  On a password that is a string, the two causes of a failed login cannot be told apart:
  an email that matches no stored user, and a password that the comparison with the
  stored digest turns down, end in the same error and leave the store unchanged.
\<close>

lemma login_string_password_failures_identical:
  assumes "body_email b1 = Some e1" and "e1 \<noteq> []" and "truthy (body_password b1)"
    and "body_email b2 = Some e2" and "e2 \<noteq> []" and "body_password b2 = Some p2" and "p2 \<noteq> []"
    and "findOne st1 e1 = None"
    and "findOne st2 e2 = Some u" and "password u = Some h" and "\<not> bcrypt_compare c p2 h"
  shows "login c cfg amb1 b1 st1 = (Inl (ErrorResponse ''Invalid credentials'' 401), st1, [FindOne e1])
       \<and> login c cfg amb2 b2 st2 =
           (Inl (ErrorResponse ''Invalid credentials'' 401), st2, [FindOne e2, Compare p2])
       \<and> fst (login c cfg amb1 b1 st1) = fst (login c cfg amb2 b2 st2)"
  using assms
  by (simp add: login_def truthy_def matchPassword_def hydrate_def Let_def)

lemma login_json_on_strings:
  "login_json c cfg amb (body_email b) (map_option JString (body_password b)) st =
     login c cfg amb b st"
proof -
  have t: "js_truthy (map_option JString v) = truthy v" for v
    by (cases v) (simp_all add: js_truthy_def truthy_def)
  have m: "matchPassword_json c d (map_option JString v) = matchPassword c d v" for d v
    by (cases v; cases "password d") (simp_all add: matchPassword_json_def matchPassword_def)
  show ?thesis unfolding login_json_def login_def t m by (rule refl)
qed

text \<open>
  Claim C1. The claim asks that a login with an unknown email and a login with a stored
  email and a password that fails the comparison get the same error. The code does not
  keep this for a password that is truthy and no string (a JSON number, say): with an
  unknown email the request ends in \<open>Invalid credentials\<close> and status 401, with a
  stored email \<open>bcrypt.compare\<close> throws and its error about illegal arguments is handed
  to \<open>next\<close> instead. The two answers differ, so such a request tells whether the
  email is stored.
\<close>

theorem login_non_string_password_reveals_user:
  assumes "e \<noteq> []" and "js_truthy pw" and "\<forall>s. pw \<noteq> Some (JString s)"
  shows "(findOne st e = None \<longrightarrow>
            login_json c cfg amb (Some e) pw st =
              (Inl (ErrorResponse ''Invalid credentials'' 401), st, [FindOne e]))
       \<and> (\<forall>u. findOne st e = Some u \<longrightarrow>
            login_json c cfg amb (Some e) pw st = (Inl IllegalArguments, st, [FindOne e]))"
proof -
  have m: "matchPassword_json c d pw = (Inl IllegalArguments, [])" for d
  proof (cases pw)
    case None
    then show ?thesis by (simp add: matchPassword_json_def)
  next
    case (Some v)
    with assms(3) show ?thesis
      by (cases v) (simp_all add: matchPassword_json_def)
  qed
  show ?thesis
    using assms(1,2) by (simp add: login_json_def truthy_def m Let_def)
qed

theorem login_non_string_password_reveals_user_witness:
  "login_json ref_collaborators production at_start (Some ''ghost@b.com'') (Some (JNumber 123456))
      [alice]
     = (Inl (ErrorResponse ''Invalid credentials'' 401), [alice], [FindOne ''ghost@b.com''])
   \<and> login_json ref_collaborators production at_start (Some ''a@b.com'') (Some (JNumber 123456))
      [alice]
     = (Inl IllegalArguments, [alice], [FindOne ''a@b.com''])"
proof -
  have f1: "findOne [alice] ''ghost@b.com'' = None" by (simp add: findOne_def alice_def)
  have f2: "findOne [alice] ''a@b.com'' = Some alice" by (simp add: findOne_def alice_def)
  have t: "js_truthy (Some (JNumber 123456))" by (simp add: js_truthy_def)
  have n: "\<forall>s. Some (JNumber 123456) \<noteq> Some (JString s)" by simp
  have e1: "''ghost@b.com'' \<noteq> []" and e2: "''a@b.com'' \<noteq> []" by simp_all
  from login_non_string_password_reveals_user [OF e1 t n, of "[alice]" ref_collaborators production at_start]
       login_non_string_password_reveals_user [OF e2 t n, of "[alice]" ref_collaborators production at_start]
       f1 f2
  show ?thesis by simp
qed

section \<open>Update of the user's details\<close>

lemma frame_refl:
  "list_all2 (\<lambda>x x'. x' = x\<lparr>name := name x', email := email x'\<rparr> \<and> (user_id x \<noteq> i \<longrightarrow> x' = x)) st st"
  by (simp add: list_all2_same)

lemma frame_update:
  "findById st i = Some u \<Longrightarrow> u' = u\<lparr>name := name u', email := email u'\<rparr> \<Longrightarrow>
   list_all2 (\<lambda>x x'. x' = x\<lparr>name := name x', email := email x'\<rparr> \<and> (user_id x \<noteq> i \<longrightarrow> x' = x))
     st (update_by_id i (\<lambda>x. u') st)"
proof (induction st)
  case Nil
  then show ?case by (simp add: findById_def)
next
  case (Cons a st)
  show ?case
  proof (cases "user_id a = i")
    case True
    with Cons.prems have "u = a" by (simp add: findById_def)
    with True Cons.prems(2) show ?thesis by (simp add: frame_refl)
  next
    case False
    with Cons.prems have "findById st i = Some u" by (simp add: findById_def)
    with Cons.IH Cons.prems(2) False show ?thesis by simp
  qed
qed

lemma findByIdAndUpdate_frame:
  assumes "findByIdAndUpdate i nm em st = (r, st', evs)"
  shows "list_all2 (\<lambda>x x'. x' = x\<lparr>name := name x', email := email x'\<rparr> \<and> (user_id x \<noteq> i \<longrightarrow> x' = x)) st st'"
proof (cases "findById st i")
  case None
  with assms show ?thesis
    by (auto simp: findByIdAndUpdate_def Let_def frame_refl split: if_splits)
next
  case (Some u)
  let ?u' = "u\<lparr>name := (case nm of None \<Rightarrow> name u | Some n \<Rightarrow> Some n),
               email := (case em of None \<Rightarrow> email u | Some e \<Rightarrow> Some e)\<rparr>"
  have "?u' = u\<lparr>name := name ?u', email := email ?u'\<rparr>" by simp
  from frame_update [OF Some this] assms Some show ?thesis
    by (auto simp: findByIdAndUpdate_def Let_def frame_refl split: if_splits)
qed

lemma findByIdAndUpdate_hides_password:
  "findByIdAndUpdate i nm em st = (Inr (Some d), st', evs) \<Longrightarrow> password d = None"
  by (auto simp: findByIdAndUpdate_def Let_def hydrate_def split: if_splits option.splits)

text \<open>
  Claim C8. For a request with a user on it, \<open>updateDetails\<close> leaves every stored
  record other than the acting user's as it is and changes at most the name and the email
  of the acting user's record; the result depends on no field of the body other than
  \<open>name\<close> and \<open>email\<close>; and the record in the response carries no password.
\<close>

theorem updateDetails_changes_only_name_and_email:
  assumes "updateDetails (Some ru) b st = (r, st', evs)"
  shows "list_all2 (\<lambda>x x'. x' = x\<lparr>name := name x', email := email x'\<rparr> \<and>
                            (user_id x \<noteq> user_id ru \<longrightarrow> x' = x)) st st'
       \<and> (\<forall>b' :: body. body_name b' = body_name b \<and> body_email b' = body_email b \<longrightarrow>
              updateDetails (Some ru) b' st = (r, st', evs))
       \<and> (\<forall>resp u. r = Inr resp \<and> json_body resp = DataJson (Some u) \<longrightarrow> password u = None)"
proof (intro conjI allI impI)
  obtain r0 where r0: "findByIdAndUpdate (user_id ru) (body_name b) (body_email b) st = (r0, st', evs)"
    using assms by (auto simp: updateDetails_def split: prod.splits sum.splits)
  from findByIdAndUpdate_frame [OF r0]
  show "list_all2 (\<lambda>x x'. x' = x\<lparr>name := name x', email := email x'\<rparr> \<and>
                            (user_id x \<noteq> user_id ru \<longrightarrow> x' = x)) st st'" .
next
  fix b' :: body assume "body_name b' = body_name b \<and> body_email b' = body_email b"
  with assms show "updateDetails (Some ru) b' st = (r, st', evs)"
    by (simp add: updateDetails_def)
next
  fix resp u assume "r = Inr resp \<and> json_body resp = DataJson (Some u)"
  with assms show "password u = None"
    using findByIdAndUpdate_hides_password [of "user_id ru" "body_name b" "body_email b" st _ st' evs]
    by (auto simp: updateDetails_def toObject_def split: prod.splits sum.splits)
qed

lemma updateDetails_alice:
  "updateDetails (Some (hydrate False alice))
      (no_body\<lparr>body_name := Some ''B'', body_role := Some ''admin'', body_password := Some ''hacked1'',
               body_tenantId := Some ''S2''\<rparr>) [alice]
   = (Inr \<lparr>status = 200, cookies = [],
           json_body = DataJson (Some (alice\<lparr>name := Some ''B'', password := None\<rparr>))\<rparr>,
      [alice\<lparr>name := Some ''B''\<rparr>], [FindByIdAndUpdate 1])"
  by code_simp

theorem updateDetails_changes_only_name_and_email_witness:
  "updateDetails (Some (hydrate False alice))
      (no_body\<lparr>body_name := Some ''B'', body_role := Some ''admin'', body_password := Some ''hacked1'',
               body_tenantId := Some ''S2''\<rparr>) [alice]
   = (Inr \<lparr>status = 200, cookies = [],
           json_body = DataJson (Some (alice\<lparr>name := Some ''B'', password := None\<rparr>))\<rparr>,
      [alice\<lparr>name := Some ''B''\<rparr>], [FindByIdAndUpdate 1])
   \<and> updateDetails (Some (hydrate False alice)) (no_body\<lparr>body_name := Some ''B''\<rparr>) [alice]
   = (Inr \<lparr>status = 200, cookies = [],
           json_body = DataJson (Some (alice\<lparr>name := Some ''B'', password := None\<rparr>))\<rparr>,
      [alice\<lparr>name := Some ''B''\<rparr>], [FindByIdAndUpdate 1])
   \<and> role (alice\<lparr>name := Some ''B''\<rparr>) = role alice
   \<and> password (alice\<lparr>name := Some ''B''\<rparr>) = password alice
   \<and> tenantId (alice\<lparr>name := Some ''B''\<rparr>) = tenantId alice
   \<and> password (alice\<lparr>name := Some ''B'', password := None\<rparr>) = None"
  using updateDetails_changes_only_name_and_email [OF updateDetails_alice]
  by (simp add: no_body_def)

section \<open>Registration\<close>

lemma findById_append_fresh:
  "\<not> (\<exists>u \<in> set st. user_id u = i) \<Longrightarrow> user_id x = i \<Longrightarrow> findById (st @ [x]) i = Some x"
  by (induction st) (auto simp: findById_def)

lemma validate_new_document:
  assumes "valid_name (body_name b)" and "valid_email (body_email b)"
    and "valid_password (body_password b)" and "valid_role (body_role b)"
    and "valid_tenantId (body_tenantId b)"
  shows "validate (new_document amb b) = []"
  using assms
  by (auto simp: validate_def new_document_def valid_role_def role_enum_def split: option.splits)

lemma save_insert:
  assumes "validate d = []" and "isNew d" and "isModified d P_password" and "password d = Some p"
    and "\<not> (\<exists>u \<in> set st. user_id u = user_id d)"
    and "\<not> email_taken st (user_id d) (email d)"
  shows "save c amb d st =
           (Inr (d\<lparr>password := Some (bcrypt_hash c p (salt amb)), isNew := False, modifiedPaths := []\<rparr>),
            st @ [toObject (d\<lparr>password := Some (bcrypt_hash c p (salt amb))\<rparr>)],
            [GenSalt, Hash p, InsertOne (user_id d)])"
  using assms by (simp add: save_def pre_save_def)

lemma create_valid:
  assumes valid: "validate (new_document amb b) = []"
    and pw: "body_password b = Some p"
    and fresh: "\<not> (\<exists>u \<in> set st. user_id u = objectId amb)"
    and unique: "\<not> (\<exists>u \<in> set st. email u = body_email b)"
  shows "create c amb b st =
           (Inr ((new_document amb b)\<lparr>password := Some (bcrypt_hash c p (salt amb)),
                                      isNew := False, modifiedPaths := []\<rparr>),
            st @ [toObject ((new_document amb b)\<lparr>password := Some (bcrypt_hash c p (salt amb))\<rparr>)],
            [GenSalt, Hash p, InsertOne (objectId amb)])"
proof -
  let ?d = "new_document amb b"
  have n: "isNew ?d" by (simp add: new_document_def)
  have m: "isModified ?d P_password"
    using pw by (simp add: isModified_def new_document_def)
  have p: "password ?d = Some p" using pw by (simp add: new_document_def)
  have i: "user_id ?d = objectId amb" by (simp add: new_document_def)
  have e: "email ?d = body_email b" by (simp add: new_document_def)
  have f: "\<not> (\<exists>u \<in> set st. user_id u = user_id ?d)" using fresh by (simp add: i)
  have t: "\<not> email_taken st (user_id ?d) (email ?d)"
    using unique by (auto simp: email_taken_def e)
  from save_insert [OF valid n m p f t, of c amb] show ?thesis
    by (simp add: create_def i)
qed

text \<open>
  Claim C3. For a registration input that passes validation, with an email no stored user
  has (and an identifier no stored document has), \<open>register\<close> succeeds; the token it
  returns verifies with the configured secret to claims whose id resolves to the record
  just added; that record holds the email exactly as given, and its password is the digest
  of the submitted plaintext and differs from the plaintext. The contracts used: verifying
  a signed token gives back the payload, and a digest is never its own plaintext.
\<close>

theorem register_token_resolves_to_new_user:
  assumes "valid_name (body_name b)" and "valid_email (body_email b)"
    and "valid_password (body_password b)" and "valid_role (body_role b)"
    and "valid_tenantId (body_tenantId b)"
    and unique: "\<not> (\<exists>u \<in> set st. email u = body_email b)"
    and fresh: "\<not> (\<exists>u \<in> set st. user_id u = objectId amb)"
    and jwt: "verify_inverts_sign c"
    and hash: "hash_differs_from_plaintext c"
  shows "\<exists>resp token decoded u evs.
           register c cfg amb b st = (Inr resp, st @ [u], evs) \<and>
           json_body resp = TokenJson token \<and>
           jwt_verify c token (JWT_SECRET cfg) = Some decoded \<and>
           findById (st @ [u]) (claims_id decoded) = Some u \<and>
           email u = body_email b \<and>
           password u \<noteq> body_password b \<and>
           (\<exists>p. body_password b = Some p \<and> password u = Some (bcrypt_hash c p (salt amb)))"
proof -
  from assms(3) obtain p where p: "body_password b = Some p"
    by (auto simp: valid_password_def split: option.splits)
  let ?d = "(new_document amb b)\<lparr>password := Some (bcrypt_hash c p (salt amb))\<rparr>"
  let ?u = "toObject ?d"
  let ?user = "?d\<lparr>isNew := False, modifiedPaths := []\<rparr>"
  have valid: "validate (new_document amb b) = []"
    using assms(1-5) by (rule validate_new_document)
  have cr: "create c amb b st = (Inr ?user, st @ [?u], [GenSalt, Hash p, InsertOne (objectId amb)])"
    using create_valid [OF valid p fresh unique] by simp
  have reg: "register c cfg amb b st =
               (Inr (sendTokenResponse c cfg amb ?user 200), st @ [?u],
                [GenSalt, Hash p, InsertOne (objectId amb)])"
    by (simp add: register_def cr)
  have body: "json_body (sendTokenResponse c cfg amb ?user 200) = TokenJson (getSignedJwtToken c cfg ?user)"
    by (simp add: sendTokenResponse_def Let_def)
  have ver: "jwt_verify c (getSignedJwtToken c cfg ?user) (JWT_SECRET cfg) =
               Some \<lparr>claims_id = objectId amb, claims_name = body_name b,
                     claims_role = role (new_document amb b), claims_tenantId = body_tenantId b\<rparr>"
    using jwt by (simp add: verify_inverts_sign_def getSignedJwtToken_def new_document_def)
  have uid: "user_id ?u = objectId amb" by (simp add: toObject_def new_document_def)
  have found: "findById (st @ [?u]) (objectId amb) = Some ?u"
    using findById_append_fresh [OF fresh uid] .
  have em: "email ?u = body_email b" by (simp add: toObject_def new_document_def)
  have pw: "password ?u = Some (bcrypt_hash c p (salt amb))" by (simp add: toObject_def)
  have neq: "password ?u \<noteq> body_password b"
    using hash by (simp add: pw p hash_differs_from_plaintext_def)
  show ?thesis
    using reg body ver found em pw neq p by auto
qed

theorem register_token_resolves_to_new_user_witness:
  "register ref_collaborators production at_start alice_registration [] =
     (Inr \<lparr>status = 200,
           cookies = [\<lparr>cookie_name = ''token'', cookie_value = alice_token,
                       expires = 2592001000, httpOnly = True, secure = Some True,
                       cookie_path = Some ''/'', sameSite = Some ''lax''\<rparr>],
           json_body = TokenJson alice_token\<rparr>,
      [alice], [GenSalt, Hash ''secret1'', InsertOne 1])
   \<and> ref_verify alice_token ''k'' =
       Some \<lparr>claims_id = 1, claims_name = Some ''A'', claims_role = Some ''student'',
             claims_tenantId = Some ''S1''\<rparr>
   \<and> findById [alice] 1 = Some alice
   \<and> email alice = Some ''a@b.com''
   \<and> password alice = Some (ref_hash ''secret1'' ''s'')"
proof -
  have v: "valid_name (body_name alice_registration)" "valid_password (body_password alice_registration)"
    "valid_role (body_role alice_registration)" "valid_tenantId (body_tenantId alice_registration)"
    by (simp_all add: alice_registration_def no_body_def valid_name_def valid_password_def
        valid_role_def valid_tenantId_def truthy_def role_enum_def)
  have e: "valid_email (body_email alice_registration)"
    using alice_email_valid by (simp add: alice_registration_def no_body_def)
  have u: "\<not> (\<exists>u \<in> set []. email u = body_email alice_registration)" by simp
  have f: "\<not> (\<exists>u \<in> set []. user_id u = objectId at_start)" by simp
  from register_token_resolves_to_new_user
         [OF v(1) e v(2) v(3) v(4) u f ref_verify_inverts_sign ref_hash_differs, of production]
  obtain resp token decoded u evs where
    r: "register ref_collaborators production at_start alice_registration [] = (Inr resp, [] @ [u], evs)"
    and t: "json_body resp = TokenJson token"
    and d: "jwt_verify ref_collaborators token (JWT_SECRET production) = Some decoded"
    and i: "findById ([] @ [u]) (claims_id decoded) = Some u"
    and m: "email u = body_email alice_registration"
    and h: "\<exists>p. body_password alice_registration = Some p \<and>
              password u = Some (bcrypt_hash ref_collaborators p (salt at_start))"
    by blast
  from r have u: "u = alice" and resp: "json_body resp = TokenJson alice_token"
    by (auto simp: register_alice)
  from t resp have tok: "token = alice_token" by simp
  from d tok have dec: "decoded = \<lparr>claims_id = 1, claims_name = Some ''A'', claims_role = Some ''student'',
             claims_tenantId = Some ''S1''\<rparr>"
    by (simp add: ref_collaborators_def production_def alice_token_verifies)
  from i u dec have "findById [alice] 1 = Some alice" by simp
  moreover from m u have "email alice = Some ''a@b.com''"
    by (simp add: alice_registration_def no_body_def)
  moreover from h u have "password alice = Some (ref_hash ''secret1'' ''s'')"
    by (simp add: alice_registration_def no_body_def ref_collaborators_def at_start_def)
  ultimately show ?thesis
    by (simp add: register_alice alice_token_verifies)
qed

section \<open>Change of password\<close>

lemma apply_modified_password:
  "modifiedPaths d = [P_password] \<Longrightarrow> apply_modified d = (\<lambda>u. u\<lparr>password := password d\<rparr>)"
  by (rule ext) (simp add: apply_modified_def)

lemma findById_member: "findById st i = Some u \<Longrightarrow> u \<in> set st \<and> user_id u = i"
  by (induction st) (auto simp: findById_def split: if_splits)

lemma findOne_member: "findOne st e = Some u \<Longrightarrow> u \<in> set st \<and> email u = Some e"
  by (induction st) (auto simp: findOne_def split: if_splits)

lemma save_password_update:
  assumes "\<not> isNew d" and "validate d = []" and "modifiedPaths d = [P_password]"
    and "password d = Some p" and "\<exists>u \<in> set st. user_id u = user_id d"
  shows "save c amb d st =
           (Inr (d\<lparr>password := Some (bcrypt_hash c p (salt amb)), modifiedPaths := []\<rparr>),
            update_by_id (user_id d) (\<lambda>u. u\<lparr>password := Some (bcrypt_hash c p (salt amb))\<rparr>) st,
            [GenSalt, Hash p, UpdateOne (user_id d)])"
proof -
  let ?d' = "d\<lparr>password := Some (bcrypt_hash c p (salt amb))\<rparr>"
  have pre: "pre_save c amb d = (Inr ?d', [GenSalt, Hash p])"
    using assms(3,4) by (simp add: pre_save_def isModified_def)
  have m: "modifiedPaths ?d' = [P_password]" using assms(3) by simp
  have ap: "apply_modified ?d' = (\<lambda>u. u\<lparr>password := Some (bcrypt_hash c p (salt amb))\<rparr>)"
    using apply_modified_password [OF m] by simp
  show ?thesis
    using assms(1,2,3,5) by (simp add: save_def pre ap isModified_def)
qed

lemma findOne_update_by_id:
  assumes "findById st i = Some u" and "findOne st e = Some u"
    and "\<And>x. email (f x) = email x"
  shows "findOne (update_by_id i f st) e = Some (f u)"
  using assms(1,2)
proof (induction st)
  case Nil
  then show ?case by (simp add: findById_def)
next
  case (Cons a st)
  show ?case
  proof (cases "user_id a = i")
    case True
    with Cons.prems(1) have ua: "u = a" by (simp add: findById_def)
    from findOne_member [OF Cons.prems(2)] ua have "email a = Some e" by simp
    with True ua assms(3) show ?thesis by (simp add: findOne_def)
  next
    case False
    with Cons.prems(1) have byid: "findById st i = Some u" by (simp add: findById_def)
    from findById_member [OF byid] False have "u \<noteq> a" by auto
    with Cons.prems(2) have ne: "email a \<noteq> Some e" and one: "findOne st e = Some u"
      by (auto simp: findOne_def split: if_splits)
    from Cons.IH [OF byid one] False ne show ?thesis by (simp add: findOne_def)
  qed
qed

lemma updatePassword_success:
  assumes byid: "findById st (user_id ru) = Some u"
    and h: "password u = Some h"
    and cur: "body_currentPassword b = Some cur" and ok: "bcrypt_compare c cur h"
    and new: "body_newPassword b = Some new" and vnew: "valid_password (Some new)" and diff: "new \<noteq> h"
    and vu: "valid_name (name u)" "valid_email (email u)" "valid_role (role u)" "valid_tenantId (tenantId u)"
  shows "\<exists>resp. updatePassword c cfg amb (Some ru) b st =
           (Inr resp,
            update_by_id (user_id ru) (\<lambda>x. x\<lparr>password := Some (bcrypt_hash c new (salt amb))\<rparr>) st,
            [FindById (user_id ru), Compare cur, GenSalt, Hash new, UpdateOne (user_id ru)])"
proof -
  let ?user = "hydrate True u"
  let ?d = "doc_set P_password (Some new) ?user"
  have uid: "user_id u = user_id ru" using findById_member [OF byid] by simp
  have mp: "matchPassword c ?user (body_currentPassword b) = (Inr True, [Compare cur])"
    using h cur ok by (simp add: matchPassword_def hydrate_def)
  have d: "?d = ?user\<lparr>password := Some new, modifiedPaths := [P_password]\<rparr>"
    using h diff by (simp add: doc_set_def hydrate_def isModified_def)
  have nn: "\<not> isNew ?d" unfolding d by (simp add: hydrate_def)
  have val: "validate ?d = []"
    unfolding d using vu vnew by (simp add: validate_def hydrate_def isModified_def)
  have m: "modifiedPaths ?d = [P_password]" unfolding d by simp
  have p: "password ?d = Some new" unfolding d by simp
  have i: "user_id ?d = user_id ru" unfolding d using uid by (simp add: hydrate_def)
  have ex: "\<exists>x \<in> set st. user_id x = user_id ?d"
    using findById_member [OF byid] i by auto
  from save_password_update [OF nn val m p ex, of c amb] i
  have sv: "save c amb ?d st =
      (Inr (?d\<lparr>password := Some (bcrypt_hash c new (salt amb)), modifiedPaths := []\<rparr>),
       update_by_id (user_id ru) (\<lambda>x. x\<lparr>password := Some (bcrypt_hash c new (salt amb))\<rparr>) st,
       [GenSalt, Hash new, UpdateOne (user_id ru)])" by simp
  show ?thesis
    unfolding updatePassword_def using byid mp sv new by (simp add: Let_def)
qed

lemma alice_changes_password:
  "updatePassword ref_collaborators production later (Some (hydrate False alice))
        (no_body\<lparr>body_currentPassword := Some ''secret1'', body_newPassword := Some ''secret2''\<rparr>)
        [alice]
     = (Inr \<lparr>status = 200,
             cookies = [\<lparr>cookie_name = ''token'', cookie_value = alice_token,
                         expires = 2592002000, httpOnly = True, secure = Some True,
                         cookie_path = Some ''/'', sameSite = Some ''lax''\<rparr>],
             json_body = TokenJson alice_token\<rparr>,
        [alice\<lparr>password := Some ''t$secret2''\<rparr>],
        [FindById 1, Compare ''secret1'', GenSalt, Hash ''secret2'', UpdateOne 1])"
  by code_simp

lemma alice_valid:
  "valid_name (name alice)" "valid_email (email alice)" "valid_role (role alice)"
  "valid_tenantId (tenantId alice)"
  using alice_email_valid
  by (simp_all add: alice_def valid_name_def valid_role_def valid_tenantId_def truthy_def role_enum_def)

text \<open>
  Claim C5, as stated: after \<open>updatePassword\<close> with a current password that verifies,
  a login with the old plaintext fails. When the new password is the old one again, the
  operation succeeds and a login with the old plaintext succeeds as well.
\<close>

theorem same_password_counterexample:
  "password alice = Some ''s$secret1''
   \<and> bcrypt_compare ref_collaborators ''secret1'' ''s$secret1''
   \<and> updatePassword ref_collaborators production later (Some (hydrate False alice))
        (no_body\<lparr>body_currentPassword := Some ''secret1'', body_newPassword := Some ''secret1''\<rparr>)
        [alice]
     = (Inr \<lparr>status = 200,
             cookies = [\<lparr>cookie_name = ''token'', cookie_value = alice_token,
                         expires = 2592002000, httpOnly = True, secure = Some True,
                         cookie_path = Some ''/'', sameSite = Some ''lax''\<rparr>],
             json_body = TokenJson alice_token\<rparr>,
        [alice\<lparr>password := Some ''t$secret1''\<rparr>],
        [FindById 1, Compare ''secret1'', GenSalt, Hash ''secret1'', UpdateOne 1])
   \<and> login ref_collaborators production later
        (no_body\<lparr>body_email := Some ''a@b.com'', body_password := Some ''secret1''\<rparr>)
        [alice\<lparr>password := Some ''t$secret1''\<rparr>]
     = (Inr \<lparr>status = 200,
             cookies = [\<lparr>cookie_name = ''token'', cookie_value = alice_token,
                         expires = 2592002000, httpOnly = True, secure = Some True,
                         cookie_path = Some ''/'', sameSite = Some ''lax''\<rparr>],
             json_body = TokenJson alice_token\<rparr>,
        [alice\<lparr>password := Some ''t$secret1''\<rparr>],
        [FindOne ''a@b.com'', Compare ''secret1''])"
  by code_simp

text \<open>
  Two more inputs on which the current password verifies: a new password shorter than six
  characters is rejected by validation and the store stays as it was; and a new password
  equal to the stored digest string is no change of the value, so nothing is hashed, the
  old plaintext still logs in and the new one does not.
\<close>

lemma short_new_password_rejected:
  "updatePassword ref_collaborators production later (Some (hydrate False alice))
        (no_body\<lparr>body_currentPassword := Some ''secret1'', body_newPassword := Some ''abc''\<rparr>)
        [alice]
     = (Inl (ValidationError [P_password]), [alice], [FindById 1, Compare ''secret1''])"
  by code_simp

lemma digest_as_new_password:
  "updatePassword ref_collaborators production later (Some (hydrate False alice))
        (no_body\<lparr>body_currentPassword := Some ''secret1'', body_newPassword := Some ''s$secret1''\<rparr>)
        [alice]
     = (Inr \<lparr>status = 200,
             cookies = [\<lparr>cookie_name = ''token'', cookie_value = alice_token,
                         expires = 2592002000, httpOnly = True, secure = Some True,
                         cookie_path = Some ''/'', sameSite = Some ''lax''\<rparr>],
             json_body = TokenJson alice_token\<rparr>,
        [alice], [FindById 1, Compare ''secret1''])
   \<and> fst (login ref_collaborators production later
        (no_body\<lparr>body_email := Some ''a@b.com'', body_password := Some ''s$secret1''\<rparr>) [alice])
     = Inl (ErrorResponse ''Invalid credentials'' 401)"
  by code_simp

text \<open>
  Claim C5, amended. Let the acting identity resolve to a stored user whose record is
  valid and whom the email \<open>e\<close> finds. If \<open>updatePassword\<close> is called with a current
  password that verifies against the stored digest and a new password that passes
  validation (at least 6 characters) and is not the stored digest string itself, then the
  operation succeeds; a later login with \<open>e\<close> and the new plaintext succeeds and issues
  a token; and a later login with \<open>e\<close> and any plaintext that does not verify against
  the new digest (an old password different from the new one, for a sound hashing
  library) fails with \<open>Invalid credentials\<close> and status 401.
\<close>

theorem updatePassword_then_login:
  assumes byid: "findById st (user_id ru) = Some u"
    and byemail: "findOne st e = Some u"
    and h: "password u = Some h"
    and cur: "body_currentPassword b = Some cur" and ok: "bcrypt_compare c cur h"
    and new: "body_newPassword b = Some new" and vnew: "valid_password (Some new)" and diff: "new \<noteq> h"
    and vu: "valid_name (name u)" "valid_email (email u)" "valid_role (role u)" "valid_tenantId (tenantId u)"
    and contract: "compare_accepts_hash c"
  shows "\<exists>resp st' evs.
           updatePassword c cfg amb (Some ru) b st = (Inr resp, st', evs) \<and>
           (\<forall>bl :: body. body_email bl = Some e \<and> body_password bl = Some new \<longrightarrow>
              (\<exists>resp' evs' token. login c cfg amb' bl st' = (Inr resp', st', evs') \<and>
                 json_body resp' = TokenJson token \<and>
                 map cookie_value (cookies resp') = [token])) \<and>
           (\<forall>(bl :: body) old. body_email bl = Some e \<and> body_password bl = Some old \<and> old \<noteq> [] \<and>
                 \<not> bcrypt_compare c old (bcrypt_hash c new (salt amb)) \<longrightarrow>
              fst (login c cfg amb' bl st') = Inl (ErrorResponse ''Invalid credentials'' 401))"
proof -
  let ?dg = "bcrypt_hash c new (salt amb)"
  let ?f = "\<lambda>x :: user. x\<lparr>password := Some ?dg\<rparr>"
  let ?st' = "update_by_id (user_id ru) ?f st"
  from updatePassword_success [OF byid h cur ok new vnew diff vu, of cfg amb]
  obtain resp where up: "updatePassword c cfg amb (Some ru) b st =
      (Inr resp, ?st', [FindById (user_id ru), Compare cur, GenSalt, Hash new, UpdateOne (user_id ru)])"
    by blast
  have found: "findOne ?st' e = Some (?f u)"
    by (rule findOne_update_by_id [OF byid byemail]) simp
  have e: "e \<noteq> []"
    using findOne_member [OF byemail] vu(2) by (auto simp: valid_email_def)
  have newne: "new \<noteq> []" using vnew by (auto simp: valid_password_def)
  have acc: "bcrypt_compare c new ?dg"
    using contract by (simp add: compare_accepts_hash_def)
  have good: "\<exists>resp' evs' token. login c cfg amb' bl ?st' = (Inr resp', ?st', evs') \<and>
                 json_body resp' = TokenJson token \<and> map cookie_value (cookies resp') = [token]"
    if "body_email bl = Some e \<and> body_password bl = Some new" for bl :: body
    using that e newne found acc
    by (simp add: login_def truthy_def matchPassword_def hydrate_def sendTokenResponse_def Let_def)
  have bad: "fst (login c cfg amb' bl ?st') = Inl (ErrorResponse ''Invalid credentials'' 401)"
    if "body_email bl = Some e \<and> body_password bl = Some old \<and> old \<noteq> [] \<and>
        \<not> bcrypt_compare c old ?dg" for bl :: body and old
    using that e found
    by (simp add: login_def truthy_def matchPassword_def hydrate_def Let_def)
  from up good bad show ?thesis by blast
qed

theorem updatePassword_then_login_witness:
  "updatePassword ref_collaborators production later (Some (hydrate False alice))
        (no_body\<lparr>body_currentPassword := Some ''secret1'', body_newPassword := Some ''secret2''\<rparr>)
        [alice]
     = (Inr \<lparr>status = 200,
             cookies = [\<lparr>cookie_name = ''token'', cookie_value = alice_token,
                         expires = 2592002000, httpOnly = True, secure = Some True,
                         cookie_path = Some ''/'', sameSite = Some ''lax''\<rparr>],
             json_body = TokenJson alice_token\<rparr>,
        [alice\<lparr>password := Some ''t$secret2''\<rparr>],
        [FindById 1, Compare ''secret1'', GenSalt, Hash ''secret2'', UpdateOne 1])
   \<and> (\<exists>resp' evs'. login ref_collaborators production at_start
         (no_body\<lparr>body_email := Some ''a@b.com'', body_password := Some ''secret2''\<rparr>)
         [alice\<lparr>password := Some ''t$secret2''\<rparr>]
        = (Inr resp', [alice\<lparr>password := Some ''t$secret2''\<rparr>], evs'))
   \<and> fst (login ref_collaborators production at_start
         (no_body\<lparr>body_email := Some ''a@b.com'', body_password := Some ''secret1''\<rparr>)
         [alice\<lparr>password := Some ''t$secret2''\<rparr>])
     = Inl (ErrorResponse ''Invalid credentials'' 401)"
proof -
  let ?b = "no_body\<lparr>body_currentPassword := Some ''secret1'', body_newPassword := Some ''secret2''\<rparr>"
  let ?new = "no_body\<lparr>body_email := Some ''a@b.com'', body_password := Some ''secret2''\<rparr>"
  let ?old = "no_body\<lparr>body_email := Some ''a@b.com'', body_password := Some ''secret1''\<rparr>"
  have byid: "findById [alice] (user_id (hydrate False alice)) = Some alice"
    by (simp add: findById_def hydrate_def)
  have byemail: "findOne [alice] ''a@b.com'' = Some alice"
    by (simp add: findOne_def alice_def)
  have h: "password alice = Some ''s$secret1''" by (simp add: alice_def)
  have cur: "body_currentPassword ?b = Some ''secret1''" by simp
  have ok: "bcrypt_compare ref_collaborators ''secret1'' ''s$secret1''"
    by (simp add: ref_collaborators_def ref_compare_def)
  have new: "body_newPassword ?b = Some ''secret2''" by simp
  have vnew: "valid_password (Some ''secret2'')" by (simp add: valid_password_def)
  have diff: "''secret2'' \<noteq> ''s$secret1''" by simp
  have old: "\<not> bcrypt_compare ref_collaborators ''secret1''
               (bcrypt_hash ref_collaborators ''secret2'' (salt later))"
    by (simp add: ref_collaborators_def ref_compare_def ref_hash_def later_def)
  from updatePassword_then_login
         [OF byid byemail h cur ok new vnew diff alice_valid ref_compare_accepts_hash,
          of production later at_start]
  obtain resp st' evs where
    up: "updatePassword ref_collaborators production later (Some (hydrate False alice)) ?b [alice]
           = (Inr resp, st', evs)"
    and good: "\<And>bl :: body. body_email bl = Some ''a@b.com'' \<and> body_password bl = Some ''secret2'' \<Longrightarrow>
              \<exists>resp' evs'. login ref_collaborators production at_start bl st' = (Inr resp', st', evs')"
    and bad: "\<And>(bl :: body) old. body_email bl = Some ''a@b.com'' \<and> body_password bl = Some old \<and> old \<noteq> [] \<and>
                 \<not> bcrypt_compare ref_collaborators old (bcrypt_hash ref_collaborators ''secret2'' (salt later)) \<Longrightarrow>
              fst (login ref_collaborators production at_start bl st') = Inl (ErrorResponse ''Invalid credentials'' 401)"
    by blast
  from up have st': "st' = [alice\<lparr>password := Some ''t$secret2''\<rparr>]"
    by (simp add: alice_changes_password)
  have g: "\<exists>resp' evs'. login ref_collaborators production at_start ?new st' = (Inr resp', st', evs')"
    by (rule good) simp
  have b: "fst (login ref_collaborators production at_start ?old st') = Inl (ErrorResponse ''Invalid credentials'' 401)"
    by (rule bad [where old = "''secret1''"]) (simp add: old)
  from g b show ?thesis
    unfolding st' by (simp add: alice_changes_password)
qed

section \<open>The stored password\<close>

lemma password_foldr_setValue:
  "password (foldr (\<lambda>p. setValue p (getValue p d)) ps u) =
     (if P_password \<in> set ps then password d else password u)"
proof (induction ps)
  case Nil
  then show ?case by simp
next
  case (Cons a ps)
  then show ?case by (cases a) auto
qed

lemma password_apply_modified:
  "password (apply_modified d u) = (if isModified d P_password then password d else password u)"
  by (simp add: apply_modified_def isModified_def password_foldr_setValue)

lemma list_all_update_by_id:
  "list_all Q st \<Longrightarrow> (\<And>u. u \<in> set st \<Longrightarrow> Q (f u)) \<Longrightarrow> list_all Q (update_by_id i f st)"
  by (induction st) auto

lemma map_password_update_by_id:
  "(\<And>u. password (f u) = password u) \<Longrightarrow> map password (update_by_id i f st) = map password st"
  by (induction st) auto

lemma kept_refl: "passwords_kept_or_hashed c amb st evs st"
  by (simp add: passwords_kept_or_hashed_def list_all_iff)

lemma kept_same_passwords:
  "map password st' = map password st \<Longrightarrow> passwords_kept_or_hashed c amb st evs st'"
proof -
  assume eq: "map password st' = map password st"
  have "password u' \<in> set (map password st)" if "u' \<in> set st'" for u'
  proof -
    from that have "password u' \<in> set (map password st')" by simp
    with eq show ?thesis by simp
  qed
  then show ?thesis by (simp add: passwords_kept_or_hashed_def list_all_iff)
qed

lemma kept_more_events:
  "passwords_kept_or_hashed c amb st evs st' \<Longrightarrow> set evs \<subseteq> set evs'
     \<Longrightarrow> passwords_kept_or_hashed c amb st evs' st'"
  by (auto simp: passwords_kept_or_hashed_def list_all_iff)

lemma kept_digests:
  assumes "passwords_kept_or_hashed c amb st evs st'" and "stored_digests c st"
  shows "stored_digests c st'"
proof -
  have "is_digest c (password u')" if "u' \<in> set st'" for u'
  proof -
    from assms(1) that
    consider "password u' \<in> set (map password st)"
      | p where "password u' = Some (bcrypt_hash c p (salt amb))"
      by (auto simp: passwords_kept_or_hashed_def list_all_iff)
    then show ?thesis
    proof cases
      case 1
      then obtain u where "u \<in> set st" and "password u' = password u" by auto
      with assms(2) show ?thesis by (auto simp: stored_digests_def list_all_iff)
    next
      case 2
      then show ?thesis by (auto simp: is_digest_def)
    qed
  qed
  then show ?thesis by (simp add: stored_digests_def list_all_iff)
qed

lemma hash_count_append [simp]: "hash_count (xs @ ys) = hash_count xs + hash_count ys"
  by (simp add: hash_count_def)

lemma hash_count_simps [simp]:
  "hash_count [] = 0"
  "hash_count (Hash p # evs) = Suc (hash_count evs)"
  "hash_count (GenSalt # evs) = hash_count evs"
  "hash_count (FindOne e # evs) = hash_count evs"
  "hash_count (FindById i # evs) = hash_count evs"
  "hash_count (FindByIdAndUpdate i # evs) = hash_count evs"
  "hash_count (InsertOne i # evs) = hash_count evs"
  "hash_count (UpdateOne i # evs) = hash_count evs"
  "hash_count (Compare p # evs) = hash_count evs"
  by (simp_all add: hash_count_def)

lemma save_unmodified:
  assumes "save c amb d st = (r, st', evs)" and "\<not> isModified d P_password"
    and "isNew d \<longrightarrow> password d = None"
  shows "hash_count evs = 0 \<and> map password st' = map password st"
proof (cases "validate d")
  case (Cons p ps)
  with assms(1) show ?thesis by (simp add: save_def)
next
  case Nil
  have pre: "pre_save c amb d = (Inr d, [])" using assms(2) by (simp add: pre_save_def)
  have notnew: "\<not> isNew d"
  proof
    assume n: "isNew d"
    with assms(3) have "password d = None" by simp
    with n Nil show False
      by (simp add: validate_def valid_password_def split: if_splits)
  qed
  have same: "map password (update_by_id (user_id d) (apply_modified d) st) = map password st"
    by (rule map_password_update_by_id) (simp add: password_apply_modified assms(2))
  from assms(1) Nil pre notnew same show ?thesis
    by (auto simp: save_def split: if_splits)
qed

lemma save_unmodified_no_hash:
  assumes "save c amb d st = (r, st', evs)" and "\<not> isModified d P_password"
  shows "hash_count evs = 0"
  using assms
  by (auto simp: save_def pre_save_def split: list.splits if_splits)


lemma save_password_discipline:
  assumes sv: "save c amb d st = (r, st', evs)"
    and new: "isNew d \<longrightarrow> isModified d P_password \<or> password d = None"
  shows "password_discipline c amb st st' evs"
proof (cases "isModified d P_password")
  case False
  with new have "isNew d \<longrightarrow> password d = None" by simp
  from save_unmodified [OF sv False this] show ?thesis
    by (simp add: password_discipline_def kept_same_passwords)
next
  case True
  show ?thesis
  proof (cases "validate d")
    case (Cons p ps)
    with sv show ?thesis by (simp add: save_def password_discipline_def kept_refl)
  next
    case Nil
    show ?thesis
    proof (cases "password d")
      case None
      with sv Nil True show ?thesis by (auto simp: save_def pre_save_def password_discipline_def kept_refl)
    next
      case (Some p)
      let ?h = "Some (bcrypt_hash c p (salt amb))"
      let ?d' = "d\<lparr>password := ?h\<rparr>"
      have pre: "pre_save c amb d = (Inr ?d', [GenSalt, Hash p])"
        using True Some by (simp add: pre_save_def)
      have m: "isModified ?d' P_password" using True by (simp add: isModified_def)
      have ins: "passwords_kept_or_hashed c amb st (GenSalt # Hash p # es) (st @ [toObject ?d'])" for es
        by (auto simp: passwords_kept_or_hashed_def list_all_iff toObject_def)
      have upd: "passwords_kept_or_hashed c amb st (GenSalt # Hash p # es)
                   (update_by_id (user_id d) (apply_modified ?d') st)" for es
        unfolding passwords_kept_or_hashed_def
        by (rule list_all_update_by_id) (auto simp: list_all_iff password_apply_modified m)
      from sv Nil pre ins upd show ?thesis
        by (auto simp: save_def password_discipline_def kept_refl split: if_splits)
    qed
  qed
qed

lemma password_discipline_refl: "hash_count evs = 0 \<Longrightarrow> password_discipline c amb st st evs"
  by (simp add: password_discipline_def kept_refl)

lemma password_discipline_prefix:
  "password_discipline c amb st st' evs \<Longrightarrow> hash_count pre = 0 \<Longrightarrow> password_discipline c amb st st' (pre @ evs)"
  by (auto simp: password_discipline_def intro: kept_more_events)

lemma new_document_password:
  "isNew (new_document amb b) \<longrightarrow>
     isModified (new_document amb b) P_password \<or> password (new_document amb b) = None"
  by (simp add: new_document_def isModified_def)

lemma create_password_discipline: "create c amb b st = (r, st', evs) \<Longrightarrow> password_discipline c amb st st' evs"
  unfolding create_def by (rule save_password_discipline [OF _ new_document_password])

lemma register_password_discipline: "register c cfg amb b st = (r, st', evs) \<Longrightarrow> password_discipline c amb st st' evs"
  by (auto simp: register_def split: prod.splits sum.splits dest: create_password_discipline)

lemma login_password_discipline: "login c cfg amb b st = (r, st', evs) \<Longrightarrow> password_discipline c amb st st' evs"
  by (auto simp: login_def matchPassword_def Let_def password_discipline_refl
      split: prod.splits sum.splits option.splits if_splits)

lemma logout_password_discipline: "logout amb st = (r, st', evs) \<Longrightarrow> password_discipline c amb st st' evs"
  by (auto simp: logout_def password_discipline_refl)

lemma findByIdAndUpdate_passwords:
  assumes "findByIdAndUpdate i nm em st = (r, st', evs)"
  shows "hash_count evs = 0 \<and> map password st' = map password st"
proof (cases "findById st i")
  case None
  with assms show ?thesis by (auto simp: findByIdAndUpdate_def Let_def split: if_splits)
next
  case (Some u)
  let ?u' = "u\<lparr>name := (case nm of None \<Rightarrow> name u | Some n \<Rightarrow> Some n),
               email := (case em of None \<Rightarrow> email u | Some e \<Rightarrow> Some e)\<rparr>"
  have "map password (update_by_id i (\<lambda>x. ?u') st) = map password st"
    using Some
  proof (induction st)
    case Nil
    then show ?case by simp
  next
    case (Cons a st)
    then show ?case by (auto simp: findById_def)
  qed
  with assms Some show ?thesis
    by (auto simp: findByIdAndUpdate_def Let_def split: if_splits)
qed

lemma updateDetails_passwords:
  assumes "updateDetails ru b st = (r, st', evs)"
  shows "hash_count evs = 0 \<and> map password st' = map password st"
proof (cases ru)
  case None
  with assms show ?thesis by (simp add: updateDetails_def)
next
  case (Some d)
  with assms obtain r0 where
    "findByIdAndUpdate (user_id d) (body_name b) (body_email b) st = (r0, st', evs)"
    by (auto simp: updateDetails_def split: prod.splits sum.splits)
  then show ?thesis by (rule findByIdAndUpdate_passwords)
qed

lemma updateDetails_password_discipline:
  "updateDetails ru b st = (r, st', evs) \<Longrightarrow> password_discipline c amb st st' evs"
  using updateDetails_passwords [of ru b st r st' evs]
  by (simp add: password_discipline_def kept_same_passwords)

lemma matchPassword_no_hash: "matchPassword c d p = (r, evs) \<Longrightarrow> hash_count evs = 0"
  by (auto simp: matchPassword_def split: option.splits)

lemma updatePassword_password_discipline:
  assumes "updatePassword c cfg amb ru b st = (r, st', evs)"
  shows "password_discipline c amb st st' evs"
proof (cases ru)
  case None
  with assms show ?thesis by (auto simp: updatePassword_def password_discipline_refl)
next
  case (Some d)
  show ?thesis
  proof (cases "findById st (user_id d)")
    case None
    with assms Some show ?thesis by (auto simp: updatePassword_def password_discipline_refl)
  next
    case u: (Some u)
    obtain m mevs where m: "matchPassword c (hydrate True u) (body_currentPassword b) = (m, mevs)"
      by (cases "matchPassword c (hydrate True u) (body_currentPassword b)") auto
    from matchPassword_no_hash [OF m] have mh: "hash_count mevs = 0" .
    show ?thesis
    proof (cases "m = Inr True")
      case False
      with assms Some u m mh show ?thesis
        by (auto simp: updatePassword_def Let_def password_discipline_refl split: sum.splits)
    next
      case True
      let ?doc = "doc_set P_password (body_newPassword b) (hydrate True u)"
      obtain sr sst sevs where sv: "save c amb ?doc st = (sr, sst, sevs)"
        by (cases "save c amb ?doc st") auto
      have nn: "isNew ?doc \<longrightarrow> isModified ?doc P_password \<or> password ?doc = None"
        by (simp add: doc_set_def hydrate_def)
      from save_password_discipline [OF sv nn] have ok: "password_discipline c amb st sst sevs" .
      have pre: "hash_count (FindById (user_id d) # mevs) = 0" using mh by simp
      from password_discipline_prefix [OF ok pre]
      have "password_discipline c amb st sst (FindById (user_id d) # mevs @ sevs)" by simp
      with assms Some u m True sv show ?thesis
        by (auto simp: updatePassword_def Let_def split: sum.splits)
    qed
  qed
qed

lemma protect_no_hash: "protect c cfg req st = (r, evs) \<Longrightarrow> hash_count evs = 0"
  by (auto simp: protect_def split: option.splits if_splits)

lemma route_password_discipline:
  assumes "route c cfg amb call st = (r, st', evs)"
  shows "password_discipline c amb st st' evs"
proof (cases call)
  case (POST_register b)
  with assms show ?thesis by (auto simp: route_def dest: register_password_discipline)
next
  case (POST_login b)
  with assms show ?thesis by (auto simp: route_def dest: login_password_discipline)
next
  case GET_logout
  with assms show ?thesis by (auto simp: route_def dest: logout_password_discipline)
next
  case (PUT_updatedetails req)
  obtain pr pevs where p: "protect c cfg req st = (pr, pevs)" by (cases "protect c cfg req st") auto
  from protect_no_hash [OF p] have ph: "hash_count pevs = 0" .
  show ?thesis
  proof (cases pr)
    case (Inl e)
    with assms PUT_updatedetails p ph show ?thesis by (auto simp: route_def password_discipline_refl)
  next
    case (Inr ru)
    obtain r2 st2 evs2 where u: "updateDetails ru (req_body req) st = (r2, st2, evs2)"
      by (cases "updateDetails ru (req_body req) st") auto
    from password_discipline_prefix [OF updateDetails_password_discipline [OF u] ph, of c amb]
    have "password_discipline c amb st st2 (pevs @ evs2)" .
    with assms PUT_updatedetails p Inr u show ?thesis by (auto simp: route_def)
  qed
next
  case (PUT_updatepassword req)
  obtain pr pevs where p: "protect c cfg req st = (pr, pevs)" by (cases "protect c cfg req st") auto
  from protect_no_hash [OF p] have ph: "hash_count pevs = 0" .
  show ?thesis
  proof (cases pr)
    case (Inl e)
    with assms PUT_updatepassword p ph show ?thesis by (auto simp: route_def password_discipline_refl)
  next
    case (Inr ru)
    obtain r2 st2 evs2 where u: "updatePassword c cfg amb ru (req_body req) st = (r2, st2, evs2)"
      by (cases "updatePassword c cfg amb ru (req_body req) st") auto
    from password_discipline_prefix [OF updatePassword_password_discipline [OF u] ph]
    have "password_discipline c amb st st2 (pevs @ evs2)" .
    with assms PUT_updatepassword p Inr u show ?thesis by (auto simp: route_def)
  qed
qed

lemma seed_document_unmodified:
  "\<not> isModified (doc_set P_name n (doc_set P_role ro (hydrate False u))) P_password
   \<and> \<not> isNew (doc_set P_name n (doc_set P_role ro (hydrate False u)))"
  by (simp add: doc_set_def hydrate_def isModified_def)

lemma seedAdmin_update_passwords:
  assumes "findOne st ''admin@cityschool.com'' = Some u" and "seedAdmin c amb st = (r, st', evs)"
  shows "hash_count evs = 0 \<and> map password st' = map password st"
proof -
  let ?d = "doc_set P_name (Some ''Super Admin'') (doc_set P_role (Some ''super-admin'') (hydrate False u))"
  from assms obtain sevs where sv: "save c amb ?d st = (r, st', sevs)"
    and evs: "evs = FindOne ''admin@cityschool.com'' # sevs"
    by (auto simp: seedAdmin_def Let_def split: prod.splits)
  from seed_document_unmodified [of "Some ''Super Admin''" "Some ''super-admin''" u]
  have nm: "\<not> isModified ?d P_password" and nn: "isNew ?d \<longrightarrow> password ?d = None" by simp_all
  from save_unmodified [OF sv nm nn] evs show ?thesis by simp
qed

lemma seedAdmin_password_discipline:
  assumes "seedAdmin c amb st = (r, st', evs)"
  shows "password_discipline c amb st st' evs"
proof (cases "findOne st ''admin@cityschool.com''")
  case (Some u)
  from seedAdmin_update_passwords [OF Some assms] show ?thesis
    by (simp add: password_discipline_def kept_same_passwords)
next
  case None
  with assms obtain b cevs where cr: "create c amb b st = (r, st', cevs)"
    and evs: "evs = FindOne ''admin@cityschool.com'' # cevs"
    by (auto simp: seedAdmin_def split: prod.splits)
  have "hash_count [FindOne ''admin@cityschool.com''] = 0" by simp
  from password_discipline_prefix [OF create_password_discipline [OF cr] this] evs show ?thesis by simp
qed

lemma step_password_discipline:
  assumes "step c cfg amb operation st = (st', evs)"
  shows "password_discipline c amb st st' evs"
proof (cases operation)
  case (Request call)
  with assms obtain r where "route c cfg amb call st = (r, st', evs)"
    by (cases "route c cfg amb call st") (auto simp: step_def)
  then show ?thesis by (rule route_password_discipline)
next
  case Seed
  with assms obtain r where "seedAdmin c amb st = (r, st', evs)"
    by (cases "seedAdmin c amb st") (auto simp: step_def)
  then show ?thesis by (rule seedAdmin_password_discipline)
qed

lemma run_stored_digests:
  "stored_digests c st \<Longrightarrow> stored_digests c (run c cfg ops st)"
proof (induction ops arbitrary: st)
  case Nil
  then show ?case by simp
next
  case (Cons x xs)
  obtain st' evs where s: "step c cfg (fst x) (snd x) st = (st', evs)"
    by (cases "step c cfg (fst x) (snd x) st") auto
  from step_password_discipline [OF s] have "passwords_kept_or_hashed c (fst x) st evs st'"
    by (simp add: password_discipline_def)
  from kept_digests [OF this Cons.prems] have "stored_digests c st'" .
  from Cons.IH [OF this] s show ?case by simp
qed

lemma register_hashes_once:
  assumes "register c cfg amb b st = (Inr resp, st', evs)"
  shows "hash_count evs = 1"
proof -
  from assms obtain d where sv: "save c amb (new_document amb b) st = (Inr d, st', evs)"
    by (auto simp: register_def create_def split: prod.splits sum.splits)
  have "isNew (new_document amb b)" by (simp add: new_document_def)
  with sv show ?thesis
    by (auto simp: save_def pre_save_def validate_def valid_password_def isModified_def new_document_def
        split: list.splits if_splits option.splits)
qed

lemma example_run:
  "run ref_collaborators production
     [(at_start, Request (POST_register alice_registration)),
      (later, Request (POST_register root_registration)),
      (later, Seed)] []
   = [alice, root\<lparr>name := Some ''Super Admin'', role := Some ''super-admin''\<rparr>]"
  by code_simp

lemma example_seed:
  "step ref_collaborators production later Seed [alice, root]
   = ([alice, root\<lparr>name := Some ''Super Admin'', role := Some ''super-admin''\<rparr>],
      [FindOne ''admin@cityschool.com'', UpdateOne 2])"
  by code_simp

text \<open>
  Claim C4. The stored password is always a digest: from a store whose passwords are all
  values of the hash function (the empty store, for one), every sequence of requests and
  seed runs leads to such a store. A step hashes at most once; every password of the store
  it leaves is a password of the store it found or the digest, one application of the hash,
  of the plaintext hashed in this step; and a step that does not hash changes no password.
  A successful registration hashes exactly once. A save of a document whose password was
  not modified does not hash, and neither \<open>updateDetails\<close> nor the seed script's update
  of an existing admin hashes or changes any stored password.
\<close>

theorem stored_password_always_digest:
  "(stored_digests c st \<longrightarrow> stored_digests c (run c cfg ops st))
   \<and> (\<forall>st' evs. step c cfg amb operation st = (st', evs) \<longrightarrow>
        hash_count evs \<le> 1 \<and> passwords_kept_or_hashed c amb st evs st' \<and>
        (hash_count evs = 0 \<longrightarrow> map password st' = map password st))
   \<and> (\<forall>resp st' evs. register c cfg amb b st = (Inr resp, st', evs) \<longrightarrow> hash_count evs = 1)
   \<and> (\<forall>r st' evs. save c amb d st = (r, st', evs) \<and> \<not> isModified d P_password \<longrightarrow>
        hash_count evs = 0)
   \<and> (\<forall>r st' evs. updateDetails ru b st = (r, st', evs) \<longrightarrow>
        hash_count evs = 0 \<and> map password st' = map password st)
   \<and> (\<forall>u r st' evs. findOne st ''admin@cityschool.com'' = Some u \<and>
          seedAdmin c amb st = (r, st', evs) \<longrightarrow>
        hash_count evs = 0 \<and> map password st' = map password st)"
proof (intro conjI allI impI)
  assume "stored_digests c st"
  then show "stored_digests c (run c cfg ops st)" by (rule run_stored_digests)
next
  fix st' evs assume s: "step c cfg amb operation st = (st', evs)"
  from step_password_discipline [OF s]
  show "hash_count evs \<le> 1" and "passwords_kept_or_hashed c amb st evs st'"
    by (simp_all add: password_discipline_def)
  assume "hash_count evs = 0"
  with step_password_discipline [OF s] show "map password st' = map password st"
    by (simp add: password_discipline_def)
next
  fix resp st' evs assume "register c cfg amb b st = (Inr resp, st', evs)"
  then show "hash_count evs = 1" by (rule register_hashes_once)
next
  fix r st' evs assume "save c amb d st = (r, st', evs) \<and> \<not> isModified d P_password"
  then show "hash_count evs = 0" using save_unmodified_no_hash by blast
next
  fix r st' evs assume u: "updateDetails ru b st = (r, st', evs)"
  from updateDetails_passwords [OF u]
  show "hash_count evs = 0" and "map password st' = map password st" by simp_all
next
  fix u r st' evs
  assume "findOne st ''admin@cityschool.com'' = Some u \<and> seedAdmin c amb st = (r, st', evs)"
  then have "hash_count evs = 0 \<and> map password st' = map password st"
    using seedAdmin_update_passwords by blast
  then show "hash_count evs = 0" and "map password st' = map password st" by simp_all
qed

theorem stored_password_always_digest_witness:
  "stored_digests ref_collaborators []
   \<and> run ref_collaborators production
        [(at_start, Request (POST_register alice_registration)),
         (later, Request (POST_register root_registration)),
         (later, Seed)] []
      = [alice, root\<lparr>name := Some ''Super Admin'', role := Some ''super-admin''\<rparr>]
   \<and> stored_digests ref_collaborators
        [alice, root\<lparr>name := Some ''Super Admin'', role := Some ''super-admin''\<rparr>]
   \<and> findOne [alice, root] ''admin@cityschool.com'' = Some root
   \<and> step ref_collaborators production later Seed [alice, root]
      = ([alice, root\<lparr>name := Some ''Super Admin'', role := Some ''super-admin''\<rparr>],
         [FindOne ''admin@cityschool.com'', UpdateOne 2])
   \<and> hash_count [FindOne ''admin@cityschool.com'', UpdateOne 2] = 0
   \<and> map password [alice, root\<lparr>name := Some ''Super Admin'', role := Some ''super-admin''\<rparr>]
      = map password [alice, root]
   \<and> hash_count [GenSalt, Hash ''secret1'', InsertOne 1] = 1"
proof -
  let ?ops = "[(at_start, Request (POST_register alice_registration)),
               (later, Request (POST_register root_registration)),
               (later, Seed)]"
  let ?root' = "root\<lparr>name := Some ''Super Admin'', role := Some ''super-admin''\<rparr>"
  let ?evs = "[FindOne ''admin@cityschool.com'', UpdateOne 2]"
  have empty: "stored_digests ref_collaborators []" by (simp add: stored_digests_def)
  have found: "findOne [alice, root] ''admin@cityschool.com'' = Some root"
    by (simp add: findOne_def alice_def root_def)
  have seed: "seedAdmin ref_collaborators later [alice, root]
                = (fst (seedAdmin ref_collaborators later [alice, root]), [alice, ?root'], ?evs)"
    using example_seed by (simp add: step_def prod_eq_iff)
  note all = stored_password_always_digest
               [of ref_collaborators "[]" production ?ops at_start "Request (POST_register alice_registration)"
                   alice_registration "hydrate False alice" None]
  note sd = stored_password_always_digest
               [of ref_collaborators "[alice, root]" production "[]" later Seed
                   no_body "hydrate False alice" None]
  from all empty have run: "stored_digests ref_collaborators (run ref_collaborators production ?ops [])"
    by blast
  from all register_alice have reg: "hash_count [GenSalt, Hash ''secret1'', InsertOne 1] = 1"
    by blast
  from sd example_seed have step: "hash_count ?evs = 0 \<longrightarrow> map password [alice, ?root'] = map password [alice, root]"
    by blast
  from sd found seed have sa: "hash_count ?evs = 0 \<and> map password [alice, ?root'] = map password [alice, root]"
    by blast
  from empty run reg sa found show ?thesis
    by (simp only: example_run example_seed)
qed

end
